theory Spec2Isabelle
  imports Main "HOL-Library.Sublist"
begin

section \<open>The chat handler of mcp-cli (src/mcpcli/chat\_handler.py)\<close>

text \<open>
  The module has three functions: \<open>handle_chat_mode\<close> discovers the tools of every
  connected server and builds the routing table \<open>tool_to_server\<close>;
  \<open>process_conversation\<close> is the conversation loop; \<open>generate_system_prompt\<close>
  builds the system turn. The language-model client, the tool transport, the prompt
  and \<open>json.loads\<close> are libraries outside the module: they are the fields of an
  environment record, and every one of them that does input or output takes the state
  of the outside world and returns the next one.
\<close>

subsection \<open>Python values\<close>

text \<open>
  A dictionary key or an object attribute that may be missing. \<open>Absent\<close> is a missing
  key (\<open>dict.get\<close> then gives its default) or a missing attribute (the access raises
  \<open>AttributeError\<close>). Python's \<open>None\<close> is the \<open>None\<close> of an option type.
\<close>

datatype 'a slot = Absent | Present 'a

fun dict_get :: "'a option slot \<Rightarrow> 'a \<Rightarrow> 'a option" where
  "dict_get Absent d = Some d"
| "dict_get (Present v) d = v"

text \<open>Truthiness of a value that is \<open>None\<close> or a string.\<close>

fun truthy :: "string option \<Rightarrow> bool" where
  "truthy None = False"
| "truthy (Some s) = (s \<noteq> [])"

text \<open>\<open>x or d\<close> for such a value.\<close>

fun or_else :: "string option \<Rightarrow> string \<Rightarrow> string" where
  "or_else None d = d"
| "or_else (Some s) d = (if s = [] then d else s)"

text \<open>What an f-string prints for a value that is \<open>None\<close> or a string.\<close>

fun py_str :: "string option \<Rightarrow> string" where
  "py_str None = ''None''"
| "py_str (Some s) = s"

text \<open>
  A string is a list of 8-bit characters, read as the code points below 256.
  \<open>str.strip\<close> removes the white space of \<open>str.isspace\<close> at both ends, and
  \<open>str.lower\<close> maps the capital letters to the small ones: among these code points,
  the 26 letters of ASCII and the 30 accented capitals from \<open>0xC0\<close> to \<open>0xDE\<close>.
\<close>

definition is_space :: "char \<Rightarrow> bool" where
  "is_space c = (c \<in> set [CHR 0x09, CHR 0x0A, CHR 0x0B, CHR 0x0C, CHR 0x0D,
                           CHR 0x1C, CHR 0x1D, CHR 0x1E, CHR 0x1F, CHR 0x20,
                           CHR 0x85, CHR 0xA0])"

definition strip :: "string \<Rightarrow> string" where
  "strip s = rev (dropWhile is_space (rev (dropWhile is_space s)))"

definition capital_letters :: string where
  "capital_letters =
     ''ABCDEFGHIJKLMNOPQRSTUVWXYZ'' @
     [CHR 0xC0, CHR 0xC1, CHR 0xC2, CHR 0xC3, CHR 0xC4, CHR 0xC5, CHR 0xC6, CHR 0xC7,
      CHR 0xC8, CHR 0xC9, CHR 0xCA, CHR 0xCB, CHR 0xCC, CHR 0xCD, CHR 0xCE, CHR 0xCF,
      CHR 0xD0, CHR 0xD1, CHR 0xD2, CHR 0xD3, CHR 0xD4, CHR 0xD5, CHR 0xD6, CHR 0xD8,
      CHR 0xD9, CHR 0xDA, CHR 0xDB, CHR 0xDC, CHR 0xDD, CHR 0xDE]"

definition small_letters :: string where
  "small_letters =
     ''abcdefghijklmnopqrstuvwxyz'' @
     [CHR 0xE0, CHR 0xE1, CHR 0xE2, CHR 0xE3, CHR 0xE4, CHR 0xE5, CHR 0xE6, CHR 0xE7,
      CHR 0xE8, CHR 0xE9, CHR 0xEA, CHR 0xEB, CHR 0xEC, CHR 0xED, CHR 0xEE, CHR 0xEF,
      CHR 0xF0, CHR 0xF1, CHR 0xF2, CHR 0xF3, CHR 0xF4, CHR 0xF5, CHR 0xF6, CHR 0xF8,
      CHR 0xF9, CHR 0xFA, CHR 0xFB, CHR 0xFC, CHR 0xFD, CHR 0xFE]"

definition lower_char :: "char \<Rightarrow> char" where
  "lower_char c =
     (case map_of (zip capital_letters small_letters) c of
        None \<Rightarrow> c
      | Some d \<Rightarrow> d)"

definition lower :: "string \<Rightarrow> string" where
  "lower s = map lower_char s"

text \<open>
  Parsed JSON, as \<open>json.loads\<close> returns it. \<open>JObj []\<close> is the empty dictionary \<open>{}\<close>.
\<close>

datatype json =
    JNull
  | JBool bool
  | JNum int
  | JStr string
  | JArr "json list"
  | JObj "(string \<times> json) list"

text \<open>
  Exceptions, each with the text that \<open>str\<close> gives for it. \<open>JSONDecodeError\<close> is the
  one of \<open>json\<close>, \<open>MarkupError\<close> the one of \<open>rich\<close>; \<open>OtherException\<close> is any
  other exception that derives from \<open>Exception\<close>. \<open>except Exception\<close> catches these
  four kinds; a \<open>NonException\<close> is an exception that does not derive from \<open>Exception\<close>
  (\<open>KeyboardInterrupt\<close>, \<open>SystemExit\<close>, \<open>asyncio.CancelledError\<close>) and passes
  through it.
\<close>

datatype pyexc =
    AttributeError string
  | JSONDecodeError string
  | MarkupError string
  | OtherException string
  | NonException string

fun is_Exception :: "pyexc \<Rightarrow> bool" where
  "is_Exception (NonException m) = False"
| "is_Exception e = True"

fun exc_str :: "pyexc \<Rightarrow> string" where
  "exc_str (AttributeError m) = m"
| "exc_str (JSONDecodeError m) = m"
| "exc_str (MarkupError m) = m"
| "exc_str (OtherException m) = m"
| "exc_str (NonException m) = m"

subsection \<open>Tools, tool calls, completions, backend results\<close>

text \<open>
  A tool descriptor is a dictionary; the handler reads only \<open>tool.get('name')\<close>, which is
  \<open>None\<close> when the key is missing.
\<close>

record tool =
  tool_name :: "string option"
  input_schema :: json

text \<open>
  A tool call of the model client: an object with \<open>id\<close> and \<open>function\<close>, the latter with
  \<open>name\<close> and \<open>arguments\<close>. The handler guards the accesses to \<open>function\<close>, \<open>name\<close>
  and \<open>arguments\<close> against \<open>AttributeError\<close>.
\<close>

record function_call =
  fn_name :: "string option slot"
  fn_arguments :: "string option slot"

record tool_call =
  tc_id :: string
  tc_function :: "function_call slot"

text \<open>
  The completion is a dictionary with the keys \<open>response\<close> and \<open>tool_calls\<close>. The
  handler reads \<open>completion.get("tool_calls", [])\<close> and only tests it for truth before
  iterating, so a missing key, \<open>None\<close> and the empty list are all the empty list here.
\<close>

record completion =
  response :: "string option slot"
  tool_calls :: "tool_call list"

text \<open>
  The result of \<open>send_call_tool\<close> is a dictionary: \<open>isError\<close> is the truth value of
  \<open>result.get("isError")\<close>.
\<close>

record call_result =
  isError :: bool
  error :: "string option slot"
  content :: "string option slot"

subsection \<open>Conversation turns\<close>

text \<open>The entry of one requested call inside an assistant turn.\<close>

record call_entry =
  ce_id :: string
  ce_name :: "string option"
  ce_arguments :: "string option"

text \<open>
  The dictionaries appended to \<open>conversation_history\<close>, by role. \<open>AssistantCalls\<close> is
  the assistant turn with the key \<open>tool_calls\<close>; \<open>ToolMsg\<close> carries \<open>tool_call_id\<close>,
  \<open>name\<close> and \<open>content\<close>.
\<close>

datatype message =
    SystemMsg string
  | UserMsg string
  | AssistantMsg "string option"
  | AssistantCalls string "call_entry list"
  | ToolMsg string string "string option"

fun is_ToolMsg :: "message \<Rightarrow> bool" where
  "is_ToolMsg (ToolMsg i n c) = True"
| "is_ToolMsg m = False"

fun tool_call_id :: "message \<Rightarrow> string" where
  "tool_call_id (ToolMsg i n c) = i"
| "tool_call_id m = []"

subsection \<open>The outside world and what the handler does to it\<close>

text \<open>The client object made by \<open>LLMClient(provider=..., model=...)\<close>.\<close>

record llm_client =
  provider :: string
  model :: string

text \<open>What the handler prints; one constructor for each \<open>print\<close> of the module.\<close>

datatype notice =
    NoToolsAvailable
  | ChatModeError string
  | ExitingPanel
  | YouPanel string
  | NoFunctionAttribute
  | InvalidToolCall
  | ToolNotFound string
  | ArgumentParseError string string
  | NoArgumentsAttribute
  | ToolInvocationPanel string json
  | ToolCallError string string
  | ToolResponsePanel string "string option"
  | AssistantPanel string
  | ProcessingError string

text \<open>
  The effects of the handler in the order in which they happen: what it prints and
  every call it makes to a collaborator. \<open>'s\<close> is a pair
  \<open>(read_stream, write_stream)\<close> of one server.
\<close>

datatype 's event =
    Printed notice
  | FetchTools 's
  | NewClient llm_client
  | Asked
  | Completion llm_client "message list" json
  | BackendCall string json 's

fun is_Completion :: "'s event \<Rightarrow> bool" where
  "is_Completion (Completion c h t) = True"
| "is_Completion e = False"

text \<open>
  The collaborators. \<open>fetch_tools\<close>, \<open>send_call_tool\<close>, \<open>Prompt.ask\<close>, the
  constructor of \<open>LLMClient\<close> and \<open>create_completion\<close> act on the world \<open>'w\<close> and
  may raise; \<open>os.getenv\<close> reads the world; \<open>json.loads\<close> returns the parsed value
  or the exception it raises; \<open>generate_prompt\<close> is the method of
  \<open>SystemPromptGenerator\<close>. \<open>markup_error\<close> is the console markup of \<open>rich\<close>: the
  message of the \<open>MarkupError\<close> that rendering a text raises, \<open>None\<close> for a text that
  renders. \<open>repr_tool_call\<close> and \<open>repr_function\<close> are what an f-string prints for
  the objects of the model client.
\<close>

record ('w, 's) env =
  fetch_tools :: "'s \<Rightarrow> 'w \<Rightarrow> (pyexc + tool list) \<times> 'w"
  generate_prompt :: "tool list \<Rightarrow> pyexc + string"
  convert_to_openai_tools :: "tool list \<Rightarrow> pyexc + json"
  getenv :: "'w \<Rightarrow> string \<Rightarrow> string option"
  client_init :: "llm_client \<Rightarrow> 'w \<Rightarrow> pyexc option \<times> 'w"
  ask :: "'w \<Rightarrow> (pyexc + string) \<times> 'w"
  create_completion :: "llm_client \<Rightarrow> message list \<Rightarrow> json \<Rightarrow> 'w \<Rightarrow> (pyexc + completion) \<times> 'w"
  json_loads :: "string \<Rightarrow> pyexc + json"
  send_call_tool :: "string \<Rightarrow> json \<Rightarrow> 's \<Rightarrow> 'w \<Rightarrow> (pyexc + call_result) \<times> 'w"
  markup_error :: "string \<Rightarrow> string option"
  repr_tool_call :: "tool_call \<Rightarrow> string"
  repr_function :: "function_call \<Rightarrow> string"

text \<open>The mutable state of a session: the conversation history, the effects so far, the world.\<close>

record ('w, 's) session =
  history :: "message list"
  trace :: "'s event list"
  world :: 'w

subsection \<open>Console output\<close>

text \<open>
  \<open>print\<close> is the one of \<open>rich\<close>. A string, printed as it is or inside a \<open>Panel\<close>,
  is rendered as console markup, and the rendering raises \<open>MarkupError\<close> for a text such
  as \<open>[/b]\<close> whose closing tag matches no open tag: \<open>markup_error\<close> of the environment
  gives the message of that exception, or \<open>None\<close> when the text renders. The texts
  below are the f-strings of the module; the fixed texts of lines 33 and 72 render, and a
  \<open>Markdown\<close> panel is not console markup.
\<close>

definition apostrophe :: string where
  "apostrophe = [CHR 0x27]"

definition chat_mode_error_text :: "string \<Rightarrow> string" where
  "chat_mode_error_text msg = ''[red]Error in chat mode:[/red] '' @ msg"

definition no_function_text :: "string \<Rightarrow> string" where
  "no_function_text tool_call_repr =
     ''[red]Error: '' @ apostrophe @ ''function'' @ apostrophe
       @ '' attribute not found in tool_call: '' @ tool_call_repr @ ''[/red]''"

definition invalid_tool_call_text :: "string \<Rightarrow> string" where
  "invalid_tool_call_text tool_call_repr =
     ''[red]Invalid tool call: '' @ tool_call_repr @ ''[/red]''"

definition tool_not_found_text :: "string \<Rightarrow> string" where
  "tool_not_found_text name =
     ''[red]Tool '' @ apostrophe @ name @ apostrophe @ '' not found on any server.[/red]''"

definition parse_error_text :: "string \<Rightarrow> string \<Rightarrow> string" where
  "parse_error_text name msg =
     ''[red]Error parsing arguments for tool '' @ apostrophe @ name @ apostrophe
       @ '': '' @ msg @ ''[/red]''"

definition no_arguments_text :: "string \<Rightarrow> string" where
  "no_arguments_text function_repr =
     ''[red]Error: '' @ apostrophe @ ''arguments'' @ apostrophe
       @ '' attribute not found in tool_call.function: '' @ function_repr @ ''[/red]''"

definition tool_error_text :: "string \<Rightarrow> string \<Rightarrow> string" where
  "tool_error_text name msg =
     ''[red]Error calling tool '' @ apostrophe @ name @ apostrophe @ '': '' @ msg @ ''[/red]''"

definition processing_error_text :: "string \<Rightarrow> string" where
  "processing_error_text msg = ''[red]Error processing message:[/red] '' @ msg"

text \<open>
  Printing a text that is console markup: the notice joins the trace when the text
  renders; otherwise nothing is printed and \<open>MarkupError\<close> is raised.
\<close>

definition print_markup ::
  "('w, 's) env \<Rightarrow> string \<Rightarrow> notice \<Rightarrow> 's event list \<Rightarrow> pyexc option \<times> 's event list" where
  "print_markup e text_printed n tr =
     (case markup_error e text_printed of
        None \<Rightarrow> (None, tr @ [Printed n])
      | Some msg \<Rightarrow> (Some (MarkupError msg), tr))"

subsection \<open>\<open>generate_system_prompt\<close>\<close>

definition GENERAL_GUIDELINES :: string where
  "GENERAL_GUIDELINES =
     ''\<newline>'' @
     ''\<newline>'' @
     ''**GENERAL GUIDELINES:**\<newline>'' @
     ''\<newline>'' @
     ''1. Step-by-step reasoning:\<newline>'' @
     ''   - Analyze tasks systematically.\<newline>'' @
     ''   - Break down complex problems into smaller, manageable parts.\<newline>'' @
     ''   - Verify assumptions at each step to avoid errors.\<newline>'' @
     ''   - Reflect on results to improve subsequent actions.\<newline>'' @
     ''\<newline>'' @
     ''2. Effective tool usage:\<newline>'' @
     ''   - Explore:\<newline>'' @
     ''     - Identify available information and verify its structure.\<newline>'' @
     ''     - Check assumptions and understand data relationships.\<newline>'' @
     ''   - Iterate:\<newline>'' @
     ''     - Start with simple queries or actions.\<newline>'' @
     ''     - Build upon successes, adjusting based on observations.\<newline>'' @
     ''   - Handle errors:\<newline>'' @
     ''     - Carefully analyze error messages.\<newline>'' @
     ''     - Use errors as a guide to refine your approach.\<newline>'' @
     ''     - Document what went wrong and suggest fixes.\<newline>'' @
     ''\<newline>'' @
     ''3. Clear communication:\<newline>'' @
     ''   - Explain your reasoning and decisions at each step.\<newline>'' @
     ''   - Share discoveries transparently with the user.\<newline>'' @
     ''   - Outline next steps or ask clarifying questions as needed.\<newline>'' @
     ''\<newline>'' @
     ''EXAMPLES OF BEST PRACTICES:\<newline>'' @
     ''\<newline>'' @
     ''- Working with databases:\<newline>'' @
     ''  - Check schema before writing queries.\<newline>'' @
     ''  - Verify the existence of columns or tables.\<newline>'' @
     ''  - Start with basic queries and refine based on results.\<newline>'' @
     ''\<newline>'' @
     ''- Processing data:\<newline>'' @
     ''  - Validate data formats and handle edge cases.\<newline>'' @
     ''  - Ensure integrity and correctness of results.\<newline>'' @
     ''\<newline>'' @
     ''- Accessing resources:\<newline>'' @
     ''  - Confirm resource availability and permissions.\<newline>'' @
     ''  - Handle missing or incomplete data gracefully.\<newline>'' @
     ''\<newline>'' @
     ''REMEMBER:\<newline>'' @
     ''- Be thorough and systematic.\<newline>'' @
     ''- Each tool call should have a clear and well-explained purpose.\<newline>'' @
     ''- Make reasonable assumptions if ambiguous.\<newline>'' @
     ''- Minimize unnecessary user interactions by providing actionable insights.\<newline>'' @
     ''\<newline>'' @
     ''EXAMPLES OF ASSUMPTIONS:\<newline>'' @
     ''- Default sorting (e.g., descending order) if not specified.\<newline>'' @
     ''- Assume basic user intentions, such as fetching top results by a common metric.\<newline>''"

definition generate_system_prompt :: "('w, 's) env \<Rightarrow> tool list \<Rightarrow> pyexc + string" where
  "generate_system_prompt e tools =
     (case generate_prompt e tools of
        Inl x \<Rightarrow> Inl x
      | Inr system_prompt \<Rightarrow> Inr (system_prompt @ GENERAL_GUIDELINES))"

subsection \<open>\<open>handle_chat_mode\<close>: tool discovery (lines 22 to 30)\<close>

text \<open>
  The inner loop over the tools of one server: a tool with a truthy name is appended to
  \<open>tools\<close> and its name is assigned in \<open>tool_to_server\<close>.
\<close>

fun register_tools ::
  "'s \<Rightarrow> tool list \<Rightarrow> tool list \<times> (string \<rightharpoonup> 's) \<Rightarrow> tool list \<times> (string \<rightharpoonup> 's)" where
  "register_tools srv [] (tools, tool_to_server) = (tools, tool_to_server)"
| "register_tools srv (t # ts) (tools, tool_to_server) =
     (case tool_name t of
        None \<Rightarrow> register_tools srv ts (tools, tool_to_server)
      | Some n \<Rightarrow>
          if n = [] then register_tools srv ts (tools, tool_to_server)
          else register_tools srv ts (tools @ [t], tool_to_server(n \<mapsto> srv)))"

text \<open>The outer loop over \<open>server_streams\<close>; an exception of \<open>fetch_tools\<close> ends it.\<close>

fun discover ::
  "('w, 's) env \<Rightarrow> 's list \<Rightarrow> tool list \<times> (string \<rightharpoonup> 's) \<Rightarrow> 's event list \<Rightarrow> 'w
   \<Rightarrow> (pyexc + tool list \<times> (string \<rightharpoonup> 's)) \<times> 's event list \<times> 'w" where
  "discover e [] acc tr w = (Inr acc, tr, w)"
| "discover e (srv # rest) acc tr w =
     (case fetch_tools e srv w of
        (Inl x, w') \<Rightarrow> (Inl x, tr @ [FetchTools srv], w')
      | (Inr server_tools, w') \<Rightarrow>
          discover e rest (register_tools srv server_tools acc) (tr @ [FetchTools srv]) w')"

subsection \<open>\<open>process_conversation\<close>: one round of the loop\<close>

text \<open>
  The list comprehension that builds the \<open>tool_calls\<close> of the assistant turn (lines 93 to
  102). It reads \<open>function.name\<close> and \<open>function.arguments\<close> of every call outside the
  guards of the dispatch loop.
\<close>

definition entry_of :: "tool_call \<Rightarrow> pyexc + call_entry" where
  "entry_of tc =
     (case tc_function tc of
        Absent \<Rightarrow> Inl (AttributeError ''function'')
      | Present f \<Rightarrow>
          (case fn_name f of
             Absent \<Rightarrow> Inl (AttributeError ''name'')
           | Present n \<Rightarrow>
               (case fn_arguments f of
                  Absent \<Rightarrow> Inl (AttributeError ''arguments'')
                | Present a \<Rightarrow> Inr \<lparr>ce_id = tc_id tc, ce_name = n, ce_arguments = a\<rparr>)))"

fun entries_of :: "tool_call list \<Rightarrow> pyexc + call_entry list" where
  "entries_of [] = Inr []"
| "entries_of (tc # tcs) =
     (case entry_of tc of
        Inl x \<Rightarrow> Inl x
      | Inr en \<Rightarrow> (case entries_of tcs of Inl x \<Rightarrow> Inl x | Inr es \<Rightarrow> Inr (en # es)))"

text \<open>
  Lines 123 to 131: the arguments of a call. A missing or falsy \<open>arguments\<close> is parsed
  as \<open>"{}"\<close>. \<open>except json.JSONDecodeError\<close> and \<open>except AttributeError\<close> print
  their notice and take the empty dictionary; any other exception of \<open>json.loads\<close>
  (a \<open>ValueError\<close> for an integer of more than 4300 digits, a \<open>RecursionError\<close>) and a
  \<open>MarkupError\<close> of one of the two prints leave the dispatch loop.
\<close>

definition empty_arguments_after ::
  "('w, 's) env \<Rightarrow> string \<Rightarrow> notice \<Rightarrow> 's event list \<Rightarrow> (pyexc + json) \<times> 's event list" where
  "empty_arguments_after e text_printed n tr =
     (case print_markup e text_printed n tr of
        (None, tr') \<Rightarrow> (Inr (JObj []), tr')
      | (Some x, tr') \<Rightarrow> (Inl x, tr'))"

definition parse_arguments ::
  "('w, 's) env \<Rightarrow> string \<Rightarrow> function_call \<Rightarrow> 's event list \<Rightarrow> (pyexc + json) \<times> 's event list" where
  "parse_arguments e name f tr =
     (case fn_arguments f of
        Absent \<Rightarrow>
          empty_arguments_after e (no_arguments_text (repr_function e f)) NoArgumentsAttribute tr
      | Present a \<Rightarrow>
          (case json_loads e (or_else a ''{}'') of
             Inr arguments \<Rightarrow> (Inr arguments, tr)
           | Inl x \<Rightarrow>
               (case x of
                  JSONDecodeError msg \<Rightarrow>
                    empty_arguments_after e (parse_error_text name msg) (ArgumentParseError name msg) tr
                | AttributeError msg \<Rightarrow>
                    empty_arguments_after e (no_arguments_text (repr_function e f))
                      NoArgumentsAttribute tr
                | MarkupError msg \<Rightarrow> (Inl x, tr)
                | OtherException msg \<Rightarrow> (Inl x, tr)
                | NonException msg \<Rightarrow> (Inl x, tr))))"

text \<open>
  The state of the dispatch loop is \<open>tool_responses\<close>, the effects and the world. The
  first component of a result is the exception that left the loop, if any.
\<close>

type_synonym ('w, 's) dstate = "message list \<times> 's event list \<times> 'w"

text \<open>\<open>print(...)\<close> followed by \<open>continue\<close>: lines 110 and 111, 114 and 115, 119 and 120.\<close>

definition skip_call ::
  "('w, 's) env \<Rightarrow> string \<Rightarrow> notice \<Rightarrow> ('w, 's) dstate \<Rightarrow> pyexc option \<times> ('w, 's) dstate" where
  "skip_call e text_printed n s =
     (case s of (tool_responses, tr, w) \<Rightarrow>
        (case print_markup e text_printed n tr of
           (x, tr') \<Rightarrow> (x, tool_responses, tr', w)))"

text \<open>
  Lines 133 to 169: the call to the server and the response recorded for it. On an
  error result the error is printed (line 147) before the response is appended (line 148).
\<close>

definition call_backend ::
  "('w, 's) env \<Rightarrow> bool \<Rightarrow> tool_call \<Rightarrow> string \<Rightarrow> 's \<Rightarrow> json \<Rightarrow> ('w, 's) dstate
   \<Rightarrow> pyexc option \<times> ('w, 's) dstate" where
  "call_backend e debug tc name srv arguments s =
     (case s of (tool_responses, tr, w) \<Rightarrow>
        (let tr1 = tr @ [Printed (ToolInvocationPanel name arguments), BackendCall name arguments srv]
         in case send_call_tool e name arguments srv w of
              (Inl x, w') \<Rightarrow> (Some x, tool_responses, tr1, w')
            | (Inr result, w') \<Rightarrow>
                if isError result then
                  (let error_msg = py_str (dict_get (error result) ''Unknown error'')
                   in case print_markup e (tool_error_text name error_msg)
                             (ToolCallError name error_msg) tr1 of
                        (Some x, tr2) \<Rightarrow> (Some x, tool_responses, tr2, w')
                      | (None, tr2) \<Rightarrow>
                          (None,
                           tool_responses @ [ToolMsg (tc_id tc) name (Some (''Error: '' @ error_msg))],
                           tr2,
                           w'))
                else
                  (let response_content = dict_get (content result) ''No content''
                   in (None,
                       tool_responses @ [ToolMsg (tc_id tc) name response_content],
                       tr1 @ (if debug then [Printed (ToolResponsePanel name response_content)] else []),
                       w'))))"

text \<open>The body of the loop over \<open>tool_calls\<close> (lines 106 to 169).\<close>

definition dispatch_one ::
  "('w, 's) env \<Rightarrow> (string \<rightharpoonup> 's) \<Rightarrow> bool \<Rightarrow> tool_call \<Rightarrow> ('w, 's) dstate
   \<Rightarrow> pyexc option \<times> ('w, 's) dstate" where
  "dispatch_one e tool_to_server debug tc s =
     (case s of (tool_responses, tr, w) \<Rightarrow>
        (case tc_function tc of
           Absent \<Rightarrow> skip_call e (no_function_text (repr_tool_call e tc)) NoFunctionAttribute s
         | Present f \<Rightarrow>
             (case fn_name f of
                Absent \<Rightarrow> skip_call e (no_function_text (repr_tool_call e tc)) NoFunctionAttribute s
              | Present None \<Rightarrow>
                  skip_call e (invalid_tool_call_text (repr_tool_call e tc)) InvalidToolCall s
              | Present (Some name) \<Rightarrow>
                  if name = [] then
                    skip_call e (invalid_tool_call_text (repr_tool_call e tc)) InvalidToolCall s
                  else
                    (case tool_to_server name of
                       None \<Rightarrow> skip_call e (tool_not_found_text name) (ToolNotFound name) s
                     | Some srv \<Rightarrow>
                         (case parse_arguments e name f tr of
                            (Inl x, tr') \<Rightarrow> (Some x, tool_responses, tr', w)
                          | (Inr arguments, tr') \<Rightarrow>
                              call_backend e debug tc name srv arguments
                                (tool_responses, tr', w))))))"

fun dispatch_tools ::
  "('w, 's) env \<Rightarrow> (string \<rightharpoonup> 's) \<Rightarrow> bool \<Rightarrow> tool_call list \<Rightarrow> ('w, 's) dstate
   \<Rightarrow> pyexc option \<times> ('w, 's) dstate" where
  "dispatch_tools e tool_to_server debug [] s = (None, s)"
| "dispatch_tools e tool_to_server debug (tc # tcs) s =
     (case dispatch_one e tool_to_server debug tc s of
        (Some x, s') \<Rightarrow> (Some x, s')
      | (None, s') \<Rightarrow> dispatch_tools e tool_to_server debug tcs s')"

text \<open>
  Lines 171 to 191: the responses are appended to the history, a response whose content
  is \<open>None\<close> with a placeholder, and the model is asked again. Only the \<open>response\<close>
  of this second completion is read.
\<close>

datatype signal = Next | Exit | Raised pyexc

fun fix_response :: "message \<Rightarrow> message" where
  "fix_response (ToolMsg i n None) = ToolMsg i n (Some ''No response from tool'')"
| "fix_response m = m"

fun dict_get_none :: "'a option slot \<Rightarrow> 'a option" where
  "dict_get_none Absent = None"
| "dict_get_none (Present v) = v"

definition followup ::
  "('w, 's) env \<Rightarrow> llm_client \<Rightarrow> json \<Rightarrow> message list \<Rightarrow> ('w, 's) session
   \<Rightarrow> signal \<times> ('w, 's) session" where
  "followup e client openai_tools tool_responses st =
     (let h = history st @ map fix_response tool_responses;
          tr = trace st @ [Completion client h openai_tools]
      in case create_completion e client h openai_tools (world st) of
           (Inl x, w') \<Rightarrow> (Raised x, \<lparr>history = h, trace = tr, world = w'\<rparr>)
         | (Inr completion, w') \<Rightarrow>
             (let response_content =
                    or_else (dict_get_none (response completion))
                      ''I processed the tool responses but have nothing specific to add.'';
                  assistant_panel_text = or_else (Some response_content) ''[No Response]''
              in (Next,
                  \<lparr>history = h @ [AssistantMsg (Some response_content)],
                   trace = tr @ [Printed (AssistantPanel assistant_panel_text)],
                   world = w'\<rparr>)))"

text \<open>
  Lines 79 to 198, after the user turn was appended: the completion, and either the
  assistant turn with its tool calls, their dispatch and the followup, or the answer.
  \<open>Raised\<close> is an exception that leaves the body of the \<open>try\<close>; the history keeps
  what was appended before it.
\<close>

definition after_user_turn ::
  "('w, 's) env \<Rightarrow> llm_client \<Rightarrow> json \<Rightarrow> (string \<rightharpoonup> 's) \<Rightarrow> bool \<Rightarrow> ('w, 's) session
   \<Rightarrow> signal \<times> ('w, 's) session" where
  "after_user_turn e client openai_tools tool_to_server debug st =
     (let h1 = history st;
          tr2 = trace st @ [Completion client h1 openai_tools]
      in case create_completion e client h1 openai_tools (world st) of
           (Inl x, w2) \<Rightarrow> (Raised x, \<lparr>history = h1, trace = tr2, world = w2\<rparr>)
         | (Inr completion, w2) \<Rightarrow>
             (let response_content = dict_get (response completion) ''No response''
              in if tool_calls completion \<noteq> [] then
                   (case entries_of (tool_calls completion) of
                      Inl x \<Rightarrow> (Raised x, \<lparr>history = h1, trace = tr2, world = w2\<rparr>)
                    | Inr entries \<Rightarrow>
                        (let h2 = h1 @ [AssistantCalls
                                          (or_else response_content ''I'll help you with that.'')
                                          entries]
                         in case dispatch_tools e tool_to_server debug
                                   (tool_calls completion) ([], tr2, w2) of
                              (Some x, tool_responses, tr3, w3) \<Rightarrow>
                                (Raised x, \<lparr>history = h2, trace = tr3, world = w3\<rparr>)
                            | (None, tool_responses, tr3, w3) \<Rightarrow>
                                followup e client openai_tools tool_responses
                                  \<lparr>history = h2, trace = tr3, world = w3\<rparr>))
                 else
                   (Next,
                    \<lparr>history = h1 @ [AssistantMsg response_content],
                     trace = tr2 @ [Printed (AssistantPanel
                                      (or_else response_content ''[No Response]''))],
                     world = w2\<rparr>)))"

text \<open>
  The body of the \<open>try\<close> of one round (lines 70 to 198). The panel of line 76 is
  printed before the user turn is appended.
\<close>

definition round_body ::
  "('w, 's) env \<Rightarrow> llm_client \<Rightarrow> json \<Rightarrow> (string \<rightharpoonup> 's) \<Rightarrow> bool \<Rightarrow> ('w, 's) session
   \<Rightarrow> signal \<times> ('w, 's) session" where
  "round_body e client openai_tools tool_to_server debug st =
     (case ask e (world st) of
        (Inl x, w1) \<Rightarrow> (Raised x, st\<lparr>trace := trace st @ [Asked], world := w1\<rparr>)
      | (Inr line, w1) \<Rightarrow>
          (let user_message = strip line;
               tr1 = trace st @ [Asked]
           in if lower user_message \<in> set [''exit'', ''quit''] then
                (Exit, st\<lparr>trace := tr1 @ [Printed ExitingPanel], world := w1\<rparr>)
              else
                (let user_panel_text = (if user_message \<noteq> [] then user_message else ''[No Message]'')
                 in case print_markup e user_panel_text (YouPanel user_panel_text) tr1 of
                      (Some x, tr') \<Rightarrow> (Raised x, st\<lparr>trace := tr', world := w1\<rparr>)
                    | (None, tr') \<Rightarrow>
                        after_user_turn e client openai_tools tool_to_server debug
                          \<lparr>history = history st @ [UserMsg user_message], trace = tr', world = w1\<rparr>)))"

text \<open>
  One round with its handler (lines 200 to 202): \<open>except Exception\<close> prints the error
  and continues; any other exception leaves the loop, and so does a \<open>MarkupError\<close> of
  the print of line 201, which is raised inside the handler.
\<close>

definition process_round ::
  "('w, 's) env \<Rightarrow> llm_client \<Rightarrow> json \<Rightarrow> (string \<rightharpoonup> 's) \<Rightarrow> bool \<Rightarrow> ('w, 's) session
   \<Rightarrow> signal \<times> ('w, 's) session" where
  "process_round e client openai_tools tool_to_server debug st =
     (case round_body e client openai_tools tool_to_server debug st of
        (Raised x, st') \<Rightarrow>
          if is_Exception x then
            (case print_markup e (processing_error_text (exc_str x))
                    (ProcessingError (exc_str x)) (trace st') of
               (Some y, tr') \<Rightarrow> (Raised y, st'\<lparr>trace := tr'\<rparr>)
             | (None, tr') \<Rightarrow> (Next, st'\<lparr>trace := tr'\<rparr>))
          else (Raised x, st')
      | (Next, st') \<Rightarrow> (Next, st')
      | (Exit, st') \<Rightarrow> (Exit, st'))"

subsection \<open>\<open>process_conversation\<close>: the loop\<close>

text \<open>
  \<open>while True\<close> may run for ever, so the loop takes the number of rounds it may still
  start and is \<open>None\<close> when they are used up. A result is the exception that left the
  loop, or \<open>None\<close> after \<open>break\<close>, and the final state.
\<close>

fun process_loop ::
  "nat \<Rightarrow> ('w, 's) env \<Rightarrow> llm_client \<Rightarrow> json \<Rightarrow> (string \<rightharpoonup> 's) \<Rightarrow> bool \<Rightarrow> ('w, 's) session
   \<Rightarrow> (pyexc option \<times> ('w, 's) session) option" where
  "process_loop 0 e client openai_tools tool_to_server debug st = None"
| "process_loop (Suc n) e client openai_tools tool_to_server debug st =
     (case process_round e client openai_tools tool_to_server debug st of
        (Next, st') \<Rightarrow> process_loop n e client openai_tools tool_to_server debug st'
      | (Exit, st') \<Rightarrow> Some (None, st')
      | (Raised x, st') \<Rightarrow> Some (Some x, st'))"

text \<open>
  Lines 62 to 65: the client is made from the environment variables, whatever the
  argument \<open>client\<close> is; the argument \<open>tools\<close> is not read either.
\<close>

definition make_client :: "('w, 's) env \<Rightarrow> 'w \<Rightarrow> llm_client" where
  "make_client e w =
     \<lparr>provider = (case getenv e w ''LLM_PROVIDER'' of None \<Rightarrow> ''openai'' | Some v \<Rightarrow> v),
      model = (case getenv e w ''LLM_MODEL'' of None \<Rightarrow> ''gpt-4o-mini'' | Some v \<Rightarrow> v)\<rparr>"

definition process_conversation ::
  "nat \<Rightarrow> ('w, 's) env \<Rightarrow> llm_client option \<Rightarrow> json \<Rightarrow> (string \<rightharpoonup> 's) \<Rightarrow> tool list \<Rightarrow> bool
   \<Rightarrow> ('w, 's) session \<Rightarrow> (pyexc option \<times> ('w, 's) session) option" where
  "process_conversation n e client_arg openai_tools tool_to_server tools debug st =
     (let client = make_client e (world st);
          tr = trace st @ [NewClient client]
      in case client_init e client (world st) of
           (Some x, w') \<Rightarrow> Some (Some x, st\<lparr>trace := tr, world := w'\<rparr>)
         | (None, w') \<Rightarrow>
             process_loop n e client openai_tools tool_to_server debug
               (st\<lparr>trace := tr, world := w'\<rparr>))"

subsection \<open>\<open>handle_chat_mode\<close>\<close>

text \<open>
  The handler of \<open>handle_chat_mode\<close> (lines 49 and 50): an \<open>Exception\<close> is printed and
  the function returns; any other exception leaves it, and so does a \<open>MarkupError\<close> of
  the print of line 50.
\<close>

definition chat_mode_except ::
  "('w, 's) env \<Rightarrow> pyexc \<Rightarrow> ('w, 's) session \<Rightarrow> pyexc option \<times> ('w, 's) session" where
  "chat_mode_except e x st =
     (if is_Exception x then
        (case print_markup e (chat_mode_error_text (exc_str x))
                (ChatModeError (exc_str x)) (trace st) of
           (y, tr') \<Rightarrow> (y, st\<lparr>trace := tr'\<rparr>))
      else (Some x, st))"

definition handle_chat_mode ::
  "nat \<Rightarrow> ('w, 's) env \<Rightarrow> 's list \<Rightarrow> string \<Rightarrow> string \<Rightarrow> bool \<Rightarrow> 'w
   \<Rightarrow> (pyexc option \<times> ('w, 's) session) option" where
  "handle_chat_mode n e server_streams provider_arg model_arg debug w =
     (case discover e server_streams ([], Map.empty) [] w of
        (Inl x, tr, w') \<Rightarrow>
          Some (chat_mode_except e x \<lparr>history = [], trace = tr, world = w'\<rparr>)
      | (Inr (tools, tool_to_server), tr, w') \<Rightarrow>
          if tools = [] then
            Some (None, \<lparr>history = [], trace = tr @ [Printed NoToolsAvailable], world = w'\<rparr>)
          else
            (case generate_system_prompt e tools of
               Inl x \<Rightarrow> Some (chat_mode_except e x \<lparr>history = [], trace = tr, world = w'\<rparr>)
             | Inr system_prompt \<Rightarrow>
                 (case convert_to_openai_tools e tools of
                    Inl x \<Rightarrow> Some (chat_mode_except e x \<lparr>history = [], trace = tr, world = w'\<rparr>)
                  | Inr openai_tools \<Rightarrow>
                      (case process_conversation n e None openai_tools tool_to_server tools debug
                              \<lparr>history = [SystemMsg system_prompt], trace = tr, world = w'\<rparr> of
                         None \<Rightarrow> None
                       | Some (None, st) \<Rightarrow> Some (None, st)
                       | Some (Some x, st) \<Rightarrow> Some (chat_mode_except e x st)))))"

subsection \<open>Vocabulary of the properties\<close>

text \<open>
  A call that the dispatch loop drops before it looks the name up: the \<open>function\<close> or
  \<open>name\<close> attribute is missing, or the name is \<open>None\<close> or empty.
\<close>

definition nameless :: "tool_call \<Rightarrow> bool" where
  "nameless tc =
     (case tc_function tc of
        Absent \<Rightarrow> True
      | Present f \<Rightarrow> (case fn_name f of Absent \<Rightarrow> True | Present n \<Rightarrow> \<not> truthy n))"

text \<open>The name a call asks for, when it has one.\<close>

definition requested :: "tool_call \<Rightarrow> string option" where
  "requested tc =
     (case tc_function tc of
        Absent \<Rightarrow> None
      | Present f \<Rightarrow>
          (case fn_name f of
             Absent \<Rightarrow> None
           | Present None \<Rightarrow> None
           | Present (Some n) \<Rightarrow> if n = [] then None else Some n))"

text \<open>A call whose name is a key of the routing table.\<close>

definition routable :: "(string \<rightharpoonup> 's) \<Rightarrow> tool_call \<Rightarrow> bool" where
  "routable tool_to_server tc =
     (case requested tc of None \<Rightarrow> False | Some n \<Rightarrow> tool_to_server n \<noteq> None)"


text \<open>A list of tool descriptors exposes a name when one of them carries it.\<close>

definition exposes :: "tool list \<Rightarrow> string \<Rightarrow> bool" where
  "exposes ts n = (n \<noteq> [] \<and> Some n \<in> set (map tool_name ts))"

text \<open>
  The tool lists that the servers return when they are asked one after the other, as
  \<open>discover\<close> asks them, paired with the server.
\<close>

fun fetch_all ::
  "('w, 's) env \<Rightarrow> 's list \<Rightarrow> 'w \<Rightarrow> (pyexc + ('s \<times> tool list) list)" where
  "fetch_all e [] w = Inr []"
| "fetch_all e (srv # rest) w =
     (case fetch_tools e srv w of
        (Inl x, w') \<Rightarrow> Inl x
      | (Inr server_tools, w') \<Rightarrow>
          (case fetch_all e rest w' of
             Inl x \<Rightarrow> Inl x
           | Inr ps \<Rightarrow> Inr ((srv, server_tools) # ps)))"

text \<open>The server a name is routed to after a discovery, if the discovery succeeded.\<close>

fun routed ::
  "(pyexc + tool list \<times> (string \<rightharpoonup> 's)) \<times> 's event list \<times> 'w \<Rightarrow> string \<Rightarrow> 's option" where
  "routed (Inr (tools, tool_to_server), tr, w) n = tool_to_server n"
| "routed (Inl x, tr, w) n = None"

text \<open>An event that involves a model client involves the given one.\<close>

fun uses_client :: "llm_client \<Rightarrow> 's event \<Rightarrow> bool" where
  "uses_client c (Completion c' h t) = (c' = c)"
| "uses_client c (NewClient c') = (c' = c)"
| "uses_client c ev = True"

text \<open>
  A trace that continues another one with events that all involve the given client
  where they involve one.
\<close>

definition extended_by :: "llm_client \<Rightarrow> 's event list \<Rightarrow> 's event list \<Rightarrow> bool" where
  "extended_by c tr tr' =
     (take (length tr) tr' = tr \<and> list_all (uses_client c) (drop (length tr) tr'))"

subsection \<open>A scripted environment\<close>

text \<open>
  A world that holds the lines the user will type, the completions the model will
  return and the environment variables. Server 0 exposes \<open>add\<close>; server 1 exposes
  \<open>add\<close>, \<open>fail\<close> and a descriptor without a name; server 2 exposes only a descriptor
  without a name; the other servers expose nothing. \<open>add\<close> answers \<open>4\<close> unless its arguments
  are the empty dictionary; \<open>fail\<close> reports an error with an empty error string. At the
  end of the input the prompt raises \<open>KeyboardInterrupt\<close>; when no completion is left
  the model client raises an exception.

  \<open>json.loads\<close> is scripted for the argument strings of the examples: \<open>{}\<close>,
  \<open>[2, 2]\<close> and \<open>{bad\<close>, with the message that the \<open>JSONDecodeError\<close> of the latter
  has; any other string is answered as one that starts no JSON value.

  The console markup is scripted for the texts of the examples, whose only tags are the
  pair \<open>[red]\<close>, \<open>[/red]\<close> of the module and \<open>[/b]\<close>: a text in which \<open>[/b]\<close> occurs
  raises \<open>MarkupError\<close> with the position of the tag in its message, as \<open>rich\<close> does
  for a closing tag that matches no open tag.
\<close>

record demo_world =
  pending_input :: "string list"
  pending_completions :: "completion list"
  env_vars :: "(string \<times> string) list"

fun find_sub :: "string \<Rightarrow> string \<Rightarrow> nat option" where
  "find_sub p [] = (if p = [] then Some 0 else None)"
| "find_sub p (c # cs) =
     (if prefix p (c # cs) then Some 0 else map_option Suc (find_sub p cs))"

fun decimal :: "nat \<Rightarrow> string" where
  "decimal n =
     (if n < 10 then [''0123456789'' ! n]
      else decimal (n div 10) @ [''0123456789'' ! (n mod 10)])"

definition demo_markup_error :: "string \<Rightarrow> string option" where
  "demo_markup_error s =
     (case find_sub ''[/b]'' s of
        None \<Rightarrow> None
      | Some i \<Rightarrow>
          Some (''closing tag '' @ apostrophe @ ''[/b]'' @ apostrophe @ '' at position ''
                  @ decimal i @ '' doesn't match any open tag''))"

definition demo_env :: "(demo_world, nat) env" where
  "demo_env =
     \<lparr>fetch_tools = (\<lambda>srv w.
        (Inr (if srv = 0 then [\<lparr>tool_name = Some ''add'', input_schema = JObj []\<rparr>]
              else if srv = 1 then [\<lparr>tool_name = Some ''add'', input_schema = JObj []\<rparr>,
                                    \<lparr>tool_name = Some ''fail'', input_schema = JObj []\<rparr>,
                                    \<lparr>tool_name = None, input_schema = JNull\<rparr>]
              else if srv = 2 then [\<lparr>tool_name = None, input_schema = JNull\<rparr>]
              else []), w)),
      generate_prompt = (\<lambda>tools. Inr ''You are a helpful assistant.''),
      convert_to_openai_tools = (\<lambda>tools. Inr (JArr (map input_schema tools))),
      getenv = (\<lambda>w k. map_of (env_vars w) k),
      client_init = (\<lambda>c w. (None, w)),
      ask = (\<lambda>w. case pending_input w of
                     [] \<Rightarrow> (Inl (NonException ''KeyboardInterrupt''), w)
                   | l # ls \<Rightarrow> (Inr l, w\<lparr>pending_input := ls\<rparr>)),
      create_completion = (\<lambda>c h t w. case pending_completions w of
                     [] \<Rightarrow> (Inl (OtherException ''connection refused''), w)
                   | x # xs \<Rightarrow> (Inr x, w\<lparr>pending_completions := xs\<rparr>)),
      json_loads = (\<lambda>s. if s = ''{}'' then Inr (JObj [])
                         else if s = ''[2, 2]'' then Inr (JArr [JNum 2, JNum 2])
                         else if s = ''{bad'' then
                           Inl (JSONDecodeError
                                  ''Expecting property name enclosed in double quotes: line 1 column 2 (char 1)'')
                         else Inl (JSONDecodeError ''Expecting value: line 1 column 1 (char 0)'')),
      send_call_tool = (\<lambda>name arguments srv w.
        (Inr (if name = ''fail''
              then \<lparr>isError = True, error = Present (Some []), content = Absent\<rparr>
              else if arguments = JObj []
              then \<lparr>isError = True, error = Present (Some ''missing operands''), content = Absent\<rparr>
              else \<lparr>isError = False, error = Absent, content = Present (Some ''4'')\<rparr>), w)),
      markup_error = demo_markup_error,
      repr_tool_call = (\<lambda>tc. ''ToolCall(id='' @ tc_id tc @ '')''),
      repr_function = (\<lambda>f. ''Function()'')\<rparr>"

definition demo_call :: "string \<Rightarrow> string \<Rightarrow> string \<Rightarrow> tool_call" where
  "demo_call i n a =
     \<lparr>tc_id = i,
      tc_function = Present \<lparr>fn_name = Present (Some n), fn_arguments = Present (Some a)\<rparr>\<rparr>"

definition demo_client :: llm_client where
  "demo_client = \<lparr>provider = ''openai'', model = ''gpt-4o-mini''\<rparr>"

definition demo_registry :: "string \<rightharpoonup> nat" where
  "demo_registry = [''add'' \<mapsto> 1, ''fail'' \<mapsto> 1]"

definition demo_session :: "string list \<Rightarrow> completion list \<Rightarrow> (demo_world, nat) session" where
  "demo_session lines completions =
     \<lparr>history = [SystemMsg ''You are a helpful assistant.''],
      trace = [],
      world = \<lparr>pending_input = lines, pending_completions = completions, env_vars = []\<rparr>\<rparr>"

section \<open>Properties\<close>

lemmas demo_simps =
  demo_env_def demo_call_def demo_client_def demo_registry_def demo_session_def
  process_round_def round_body_def after_user_turn_def followup_def dispatch_one_def
  call_backend_def skip_call_def parse_arguments_def empty_arguments_after_def
  print_markup_def demo_markup_error_def apostrophe_def tool_not_found_text_def
  parse_error_text_def tool_error_text_def processing_error_text_def
  invalid_tool_call_text_def no_function_text_def no_arguments_text_def
  chat_mode_error_text_def entry_of_def strip_def lower_def lower_char_def capital_letters_def small_letters_def is_space_def Let_def

subsection \<open>Printing\<close>

lemma print_markup_ok:
  "markup_error e s = None \<Longrightarrow> print_markup e s n tr = (None, tr @ [Printed n])"
  by (simp add: print_markup_def)

subsection \<open>The history only grows\<close>




lemma process_round_history_eq:
  "history (snd (process_round e c ot reg debug st)) = history (snd (round_body e c ot reg debug st))"
  by (simp add: process_round_def split: prod.split signal.split option.split)





subsection \<open>No tools, no conversation\<close>

lemma discover_trace:
  "discover e ss acc tr w = (r, tr', w') \<Longrightarrow> \<exists>k. tr' = tr @ map FetchTools (take k ss)"
proof (induction ss arbitrary: acc tr w)
  case Nil
  then show ?case by simp
next
  case (Cons s ss)
  obtain r1 w1 where f: "fetch_tools e s w = (r1, w1)" by (cases "fetch_tools e s w")
  show ?case
  proof (cases r1)
    case (Inl x)
    with Cons.prems f have "tr' = tr @ map FetchTools (take 1 (s # ss))" by auto
    then show ?thesis by blast
  next
    case (Inr ts)
    with Cons.prems f
    have "discover e ss (register_tools s ts acc) (tr @ [FetchTools s]) w1 = (r, tr', w')"
      by simp
    from Cons.IH [OF this]
    obtain k where "tr' = (tr @ [FetchTools s]) @ map FetchTools (take k ss)" by blast
    then have "tr' = tr @ map FetchTools (take (Suc k) (s # ss))" by simp
    then show ?thesis by blast
  qed
qed

lemma discover_no_completion:
  "discover e ss acc [] w = (r, tr', w') \<Longrightarrow> \<not> list_ex is_Completion tr'"
  by (drule discover_trace) (auto simp: list_ex_iff)

text \<open>
  Claim C9. When the discovery over all servers ends with an empty list of tools,
  \<open>handle_chat_mode\<close> returns at once, for every bound on the number of rounds: it
  prints that no tools are available, the history is never created, and no completion
  call has been made.
\<close>

theorem no_tools_ends_session:
  assumes "discover e server_streams ([], Map.empty) [] w = (Inr ([], tool_to_server), tr, w')"
  shows "handle_chat_mode n e server_streams provider_arg model_arg debug w =
           Some (None, \<lparr>history = [], trace = tr @ [Printed NoToolsAvailable], world = w'\<rparr>)
         \<and> \<not> list_ex is_Completion (tr @ [Printed NoToolsAvailable])"
  using assms discover_no_completion [OF assms]
  by (simp add: handle_chat_mode_def)

theorem no_tools_ends_session_witness:
  "discover demo_env [2, 3] ([], Map.empty) []
      \<lparr>pending_input = [''hello''], pending_completions = [], env_vars = []\<rparr>
     = (Inr ([], Map.empty), [FetchTools 2, FetchTools 3],
        \<lparr>pending_input = [''hello''], pending_completions = [], env_vars = []\<rparr>)
   \<and> handle_chat_mode 7 demo_env [2, 3] ''openai'' ''gpt-4o-mini'' False
        \<lparr>pending_input = [''hello''], pending_completions = [], env_vars = []\<rparr>
     = Some (None, \<lparr>history = [], trace = [FetchTools 2, FetchTools 3, Printed NoToolsAvailable],
                    world = \<lparr>pending_input = [''hello''], pending_completions = [], env_vars = []\<rparr>\<rparr>)
   \<and> \<not> list_ex is_Completion [FetchTools 2, FetchTools 3, Printed NoToolsAvailable :: nat event]"
proof -
  have d: "discover demo_env [2, 3] ([], Map.empty) []
      \<lparr>pending_input = [''hello''], pending_completions = [], env_vars = []\<rparr>
     = (Inr ([], Map.empty), [FetchTools 2, FetchTools 3],
        \<lparr>pending_input = [''hello''], pending_completions = [], env_vars = []\<rparr>)"
    by (simp add: demo_env_def)
  show ?thesis
    using d no_tools_ends_session [OF d, of 7 "''openai''" "''gpt-4o-mini''" False] by simp
qed

subsection \<open>What the dispatch loop does with one call\<close>

lemma dispatch_one_unknown:
  assumes "requested tc = Some n" and "reg n = None"
  shows "dispatch_one e reg debug tc s = skip_call e (tool_not_found_text n) (ToolNotFound n) s"
  using assms
  by (cases s)
     (auto simp: dispatch_one_def requested_def split: slot.splits option.splits if_splits)

lemma dispatch_one_unknown_rendered:
  assumes "requested tc = Some n" and "reg n = None"
      and "markup_error e (tool_not_found_text n) = None"
  shows "dispatch_one e reg debug tc (resps, tr, w) = (None, resps, tr @ [Printed (ToolNotFound n)], w)"
  using dispatch_one_unknown [where reg = reg and e = e and debug = debug
          and s = "(resps, tr, w)", OF assms(1,2)] assms(3)
  by (simp add: skip_call_def print_markup_ok)

lemma skip_call_None:
  "skip_call e s n (resps, tr, w) = (None, resps', tr', w') \<Longrightarrow> resps' = resps"
  by (auto simp: skip_call_def split: prod.splits)

lemma dispatch_one_nameless:
  assumes "nameless tc"
  shows "\<exists>s n. dispatch_one e reg debug tc (resps, tr, w) = skip_call e s n (resps, tr, w)"
  using assms
  by (auto simp: dispatch_one_def nameless_def split: slot.splits option.splits if_splits)

lemma dispatch_one_routed:
  assumes "tc_function tc = Present f" and "requested tc = Some n" and "reg n = Some srv"
  shows "dispatch_one e reg debug tc (resps, tr, w) =
           (case parse_arguments e n f tr of
              (Inl x, tr') \<Rightarrow> (Some x, resps, tr', w)
            | (Inr arguments, tr') \<Rightarrow> call_backend e debug tc n srv arguments (resps, tr', w))"
  using assms
  by (auto simp: dispatch_one_def requested_def split: slot.splits option.splits if_splits)

lemma call_backend_responses:
  "call_backend e debug tc n srv args (resps, tr, w) = (None, resps', tr', w')
   \<Longrightarrow> \<exists>c. resps' = resps @ [ToolMsg (tc_id tc) n c]"
  by (auto simp: call_backend_def Let_def split: prod.splits sum.splits if_splits option.splits)

lemma requested_None_iff: "(requested tc = None) = nameless tc"
  by (auto simp: requested_def nameless_def split: slot.splits option.splits)

lemma dispatch_one_responses:
  assumes "dispatch_one e reg debug tc (resps, tr, w) = (None, resps', tr', w')"
  shows "\<exists>new. resps' = resps @ new \<and> list_all is_ToolMsg new
           \<and> map tool_call_id new = (if routable reg tc then [tc_id tc] else [])"
proof (cases "requested tc")
  case None
  then have "nameless tc" by (simp add: requested_None_iff)
  from dispatch_one_nameless [OF this, of e reg debug resps tr w]
  obtain s m where "dispatch_one e reg debug tc (resps, tr, w) = skip_call e s m (resps, tr, w)"
    by blast
  with assms have "skip_call e s m (resps, tr, w) = (None, resps', tr', w')" by simp
  then have "resps' = resps" by (rule skip_call_None)
  with None show ?thesis by (simp add: routable_def)
next
  case (Some n)
  then obtain f where f: "tc_function tc = Present f"
    by (auto simp: requested_def split: slot.splits)
  show ?thesis
  proof (cases "reg n")
    case None
    from dispatch_one_unknown [where reg = reg and e = e and debug = debug
           and s = "(resps, tr, w)", OF Some None] assms
    have "skip_call e (tool_not_found_text n) (ToolNotFound n) (resps, tr, w) = (None, resps', tr', w')"
      by simp
    then have "resps' = resps" by (rule skip_call_None)
    with Some None show ?thesis by (simp add: routable_def)
  next
    case (Some srv)
    obtain r tr0 where pa: "parse_arguments e n f tr = (r, tr0)"
      by (cases "parse_arguments e n f tr")
    from dispatch_one_routed [where reg = reg and e = e and debug = debug and resps = resps
           and tr = tr and w = w, OF f \<open>requested tc = Some n\<close> Some] assms pa
    have eq: "(case r of Inl x \<Rightarrow> (Some x, resps, tr0, w)
                | Inr arguments \<Rightarrow> call_backend e debug tc n srv arguments (resps, tr0, w))
              = (None, resps', tr', w')"
      by simp
    have "\<exists>c. resps' = resps @ [ToolMsg (tc_id tc) n c]"
    proof (cases r)
      case (Inl x)
      with eq show ?thesis by simp
    next
      case (Inr arguments)
      with eq have "call_backend e debug tc n srv arguments (resps, tr0, w) = (None, resps', tr', w')"
        by simp
      then show ?thesis by (rule call_backend_responses)
    qed
    then obtain c where "resps' = resps @ [ToolMsg (tc_id tc) n c]" by blast
    with Some \<open>requested tc = Some n\<close> show ?thesis by (simp add: routable_def)
  qed
qed

lemma dispatch_tools_responses:
  "dispatch_tools e reg debug tcs (resps, tr, w) = (None, resps', tr', w')
   \<Longrightarrow> \<exists>new. resps' = resps @ new \<and> list_all is_ToolMsg new
           \<and> map tool_call_id new = map tc_id (filter (routable reg) tcs)"
proof (induction tcs arbitrary: resps tr w)
  case Nil
  then show ?case by simp
next
  case (Cons tc tcs)
  obtain x r1 t1 w1 where d: "dispatch_one e reg debug tc (resps, tr, w) = (x, r1, t1, w1)"
    by (cases "dispatch_one e reg debug tc (resps, tr, w)") auto
  with Cons.prems have x: "x = None" and rest: "dispatch_tools e reg debug tcs (r1, t1, w1) = (None, resps', tr', w')"
    by (auto split: option.splits)
  from dispatch_one_responses [OF d [unfolded x]] obtain n1 where
    n1: "r1 = resps @ n1" "list_all is_ToolMsg n1" "map tool_call_id n1 = (if routable reg tc then [tc_id tc] else [])"
    by blast
  from Cons.IH [OF rest] obtain n2 where
    n2: "resps' = r1 @ n2" "list_all is_ToolMsg n2" "map tool_call_id n2 = map tc_id (filter (routable reg) tcs)"
    by blast
  have "resps' = resps @ (n1 @ n2)" using n1 n2 by simp
  moreover have "list_all is_ToolMsg (n1 @ n2)" using n1 n2 by simp
  moreover have "map tool_call_id (n1 @ n2) = map tc_id (filter (routable reg) (tc # tcs))"
    using n1 n2 by simp
  ultimately show ?case by blast
qed

lemma followup_ok:
  assumes "create_completion e c (history st @ map fix_response resps) ot (world st) = (Inr reply2, w')"
      and "text = (case response reply2 of
                     Present (Some t) \<Rightarrow>
                       if t = [] then ''I processed the tool responses but have nothing specific to add.''
                       else t
                   | Present None \<Rightarrow> ''I processed the tool responses but have nothing specific to add.''
                   | Absent \<Rightarrow> ''I processed the tool responses but have nothing specific to add.'')"
  shows "followup e c ot resps st =
           (Next, \<lparr>history = history st @ map fix_response resps @ [AssistantMsg (Some text)],
                   trace = trace st @ [Completion c (history st @ map fix_response resps) ot,
                                       Printed (AssistantPanel text)],
                   world = w'\<rparr>)"
  using assms
  by (auto simp: followup_def Let_def split: slot.splits option.splits)

lemma round_body_tools:
  assumes "ask e (world st) = (Inr line, w1)"
      and "u = strip line"
      and "lower u \<notin> set [''exit'', ''quit'']"
      and "markup_error e (if u \<noteq> [] then u else ''[No Message]'') = None"
      and "h1 = history st @ [UserMsg u]"
      and "tr2 = trace st @ [Asked, Printed (YouPanel (if u \<noteq> [] then u else ''[No Message]'')),
                             Completion c h1 ot]"
      and "create_completion e c h1 ot w1 = (Inr reply, w2)"
      and "tool_calls reply \<noteq> []"
      and "entries_of (tool_calls reply) = Inr es"
      and "dispatch_tools e reg debug (tool_calls reply) ([], tr2, w2) = (None, resps, tr3, w3)"
  shows "round_body e c ot reg debug st =
           followup e c ot resps
             \<lparr>history = h1 @ [AssistantCalls
                                (or_else (dict_get (response reply) ''No response'')
                                   ''I'll help you with that.'') es],
              trace = tr3, world = w3\<rparr>"
  using assms
  by (cases "strip line = []")
     (simp_all add: round_body_def after_user_turn_def print_markup_def Let_def)

lemma process_round_Next:
  "round_body e c ot reg debug st = (Next, st') \<Longrightarrow> process_round e c ot reg debug st = (Next, st')"
  by (simp add: process_round_def)

subsection \<open>A round with tool calls\<close>

lemma process_round_tools:
  assumes "ask e (world st) = (Inr line, w1)"
      and "u = strip line"
      and "lower u \<notin> set [''exit'', ''quit'']"
      and "markup_error e (if u \<noteq> [] then u else ''[No Message]'') = None"
      and "h1 = history st @ [UserMsg u]"
      and "tr2 = trace st @ [Asked, Printed (YouPanel (if u \<noteq> [] then u else ''[No Message]'')),
                             Completion c h1 ot]"
      and "create_completion e c h1 ot w1 = (Inr reply, w2)"
      and "tool_calls reply \<noteq> []"
      and "entries_of (tool_calls reply) = Inr es"
      and "dispatch_tools e reg debug (tool_calls reply) ([], tr2, w2) = (None, resps, tr3, w3)"
      and "h2 = h1 @ [AssistantCalls (or_else (dict_get (response reply) ''No response'')
                                        ''I'll help you with that.'') es]
                  @ map fix_response resps"
      and "create_completion e c h2 ot w3 = (Inr reply2, w4)"
      and "text = (case response reply2 of
                     Present (Some t) \<Rightarrow>
                       if t = [] then ''I processed the tool responses but have nothing specific to add.''
                       else t
                   | Present None \<Rightarrow> ''I processed the tool responses but have nothing specific to add.''
                   | Absent \<Rightarrow> ''I processed the tool responses but have nothing specific to add.'')"
  shows "process_round e c ot reg debug st =
           (Next, \<lparr>history = h2 @ [AssistantMsg (Some text)],
                   trace = tr3 @ [Completion c h2 ot, Printed (AssistantPanel text)],
                   world = w4\<rparr>)"
proof -
  let ?st2 = "\<lparr>history = h1 @ [AssistantCalls (or_else (dict_get (response reply) ''No response'')
                                        ''I'll help you with that.'') es],
               trace = tr3, world = w3\<rparr>"
  have "round_body e c ot reg debug st = followup e c ot resps ?st2"
    using assms(1-10) by (rule round_body_tools)
  moreover have "followup e c ot resps ?st2 =
           (Next, \<lparr>history = history ?st2 @ map fix_response resps @ [AssistantMsg (Some text)],
                   trace = trace ?st2 @ [Completion c (history ?st2 @ map fix_response resps) ot,
                                       Printed (AssistantPanel text)],
                   world = w4\<rparr>)"
    using assms(11-13) by (intro followup_ok) simp_all
  ultimately have "round_body e c ot reg debug st =
           (Next, \<lparr>history = h2 @ [AssistantMsg (Some text)],
                   trace = tr3 @ [Completion c h2 ot, Printed (AssistantPanel text)],
                   world = w4\<rparr>)"
    using assms(11) by simp
  then show ?thesis by (rule process_round_Next)
qed

subsection \<open>The followup completion ends the round\<close>

text \<open>
  Claim C6. Take a round that reaches the dispatch of tool calls: the line is no exit
  keyword, the panel that echoes it is rendered, the first completion requests tool
  calls, and the dispatch loop ends without an exception. Then the second completion is
  asked once and only its \<open>response\<close> is read: the round ends with the signal to read
  the next input, the history is the history sent to the second completion followed by
  one assistant turn, and the trace is the trace of the dispatch followed by the second
  completion call and the assistant panel, whatever tool calls the second completion
  requests. The text of that assistant turn is the response, or the sentence
  "I processed the tool responses but have nothing specific to add." when the response
  is empty, \<open>None\<close> or missing.
\<close>

theorem followup_text_is_final:
  assumes "ask e (world st) = (Inr line, w1)"
      and "u = strip line"
      and "lower u \<notin> set [''exit'', ''quit'']"
      and "markup_error e (if u \<noteq> [] then u else ''[No Message]'') = None"
      and "h1 = history st @ [UserMsg u]"
      and "tr2 = trace st @ [Asked, Printed (YouPanel (if u \<noteq> [] then u else ''[No Message]'')),
                             Completion c h1 ot]"
      and "create_completion e c h1 ot w1 = (Inr reply, w2)"
      and "tool_calls reply \<noteq> []"
      and "entries_of (tool_calls reply) = Inr es"
      and "dispatch_tools e reg debug (tool_calls reply) ([], tr2, w2) = (None, resps, tr3, w3)"
      and "h2 = h1 @ [AssistantCalls (or_else (dict_get (response reply) ''No response'')
                                        ''I'll help you with that.'') es]
                  @ map fix_response resps"
      and "create_completion e c h2 ot w3 = (Inr reply2, w4)"
      and "text = (case response reply2 of
                     Present (Some t) \<Rightarrow>
                       if t = [] then ''I processed the tool responses but have nothing specific to add.''
                       else t
                   | Present None \<Rightarrow> ''I processed the tool responses but have nothing specific to add.''
                   | Absent \<Rightarrow> ''I processed the tool responses but have nothing specific to add.'')"
  shows "process_round e c ot reg debug st =
           (Next, \<lparr>history = h2 @ [AssistantMsg (Some text)],
                   trace = tr3 @ [Completion c h2 ot, Printed (AssistantPanel text)],
                   world = w4\<rparr>)"
  using assms by (rule process_round_tools)

theorem followup_text_is_final_witness:
  "process_round demo_env demo_client JNull demo_registry False
     (demo_session [''what is 2+2'']
        [\<lparr>response = Absent, tool_calls = [demo_call ''c2'' ''add'' ''[2, 2]'']\<rparr>,
         \<lparr>response = Present (Some []), tool_calls = [demo_call ''c9'' ''add'' ''[2, 2]'']\<rparr>])
   = (Next,
      \<lparr>history =
         [SystemMsg ''You are a helpful assistant.'', UserMsg ''what is 2+2'',
          AssistantCalls ''No response''
            [\<lparr>ce_id = ''c2'', ce_name = Some ''add'', ce_arguments = Some ''[2, 2]''\<rparr>],
          ToolMsg ''c2'' ''add'' (Some ''4''),
          AssistantMsg (Some ''I processed the tool responses but have nothing specific to add.'')],
       trace =
         [Asked, Printed (YouPanel ''what is 2+2''),
          Completion demo_client
            [SystemMsg ''You are a helpful assistant.'', UserMsg ''what is 2+2''] JNull,
          Printed (ToolInvocationPanel ''add'' (JArr [JNum 2, JNum 2])),
          BackendCall ''add'' (JArr [JNum 2, JNum 2]) 1,
          Completion demo_client
            [SystemMsg ''You are a helpful assistant.'', UserMsg ''what is 2+2'',
             AssistantCalls ''No response''
               [\<lparr>ce_id = ''c2'', ce_name = Some ''add'', ce_arguments = Some ''[2, 2]''\<rparr>],
             ToolMsg ''c2'' ''add'' (Some ''4'')] JNull,
          Printed (AssistantPanel ''I processed the tool responses but have nothing specific to add.'')],
       world = \<lparr>pending_input = [], pending_completions = [], env_vars = []\<rparr>\<rparr>)"
proof -
  let ?r1 = "\<lparr>response = Absent, tool_calls = [demo_call ''c2'' ''add'' ''[2, 2]'']\<rparr>"
  let ?r2 = "\<lparr>response = Present (Some []), tool_calls = [demo_call ''c9'' ''add'' ''[2, 2]'']\<rparr>"
  let ?st = "demo_session [''what is 2+2''] [?r1, ?r2]"
  let ?w1 = "\<lparr>pending_input = [], pending_completions = [?r1, ?r2], env_vars = []\<rparr>"
  let ?w2 = "\<lparr>pending_input = [], pending_completions = [?r2], env_vars = []\<rparr>"
  let ?w4 = "\<lparr>pending_input = [], pending_completions = [], env_vars = []\<rparr>"
  let ?h1 = "[SystemMsg ''You are a helpful assistant.'', UserMsg ''what is 2+2'']"
  let ?tr2 = "[Asked, Printed (YouPanel ''what is 2+2''), Completion demo_client ?h1 JNull]
                :: nat event list"
  let ?es = "[\<lparr>ce_id = ''c2'', ce_name = Some ''add'', ce_arguments = Some ''[2, 2]''\<rparr>]"
  let ?resps = "[ToolMsg ''c2'' ''add'' (Some ''4'')]"
  let ?tr3 = "?tr2 @ [Printed (ToolInvocationPanel ''add'' (JArr [JNum 2, JNum 2])),
                      BackendCall ''add'' (JArr [JNum 2, JNum 2]) 1]"
  let ?h2 = "?h1 @ [AssistantCalls ''No response'' ?es] @ ?resps"
  let ?text = "''I processed the tool responses but have nothing specific to add.''"
  have a1: "ask demo_env (world ?st) = (Inr ''what is 2+2'', ?w1)"
    by (simp add: demo_env_def demo_session_def)
  have a2: "''what is 2+2'' = strip ''what is 2+2''"
    by (simp add: strip_def is_space_def)
  have a3: "lower ''what is 2+2'' \<notin> set [''exit'', ''quit'']"
    by (simp add: lower_def lower_char_def capital_letters_def small_letters_def)
  have am: "markup_error demo_env (if ''what is 2+2'' \<noteq> [] then ''what is 2+2'' else ''[No Message]'')
              = None"
    by (simp add: demo_env_def demo_markup_error_def)
  have a4: "?h1 = history ?st @ [UserMsg ''what is 2+2'']"
    by (simp add: demo_session_def)
  have a5: "?tr2 = trace ?st @ [Asked,
              Printed (YouPanel (if ''what is 2+2'' \<noteq> [] then ''what is 2+2'' else ''[No Message]'')),
              Completion demo_client ?h1 JNull]"
    by (simp add: demo_session_def)
  have a6: "create_completion demo_env demo_client ?h1 JNull ?w1 = (Inr ?r1, ?w2)"
    by (simp add: demo_env_def)
  have a7: "tool_calls ?r1 \<noteq> []" by simp
  have a8: "entries_of (tool_calls ?r1) = Inr ?es"
    by (simp add: entry_of_def demo_call_def)
  have a9: "dispatch_tools demo_env demo_registry False (tool_calls ?r1) ([], ?tr2, ?w2)
              = (None, ?resps, ?tr3, ?w2)"
    by (simp add: demo_simps)
  have a10: "?h2 = ?h1 @ [AssistantCalls (or_else (dict_get (response ?r1) ''No response'')
                                        ''I'll help you with that.'') ?es]
                  @ map fix_response ?resps"
    by simp
  have a11: "create_completion demo_env demo_client ?h2 JNull ?w2 = (Inr ?r2, ?w4)"
    by (simp add: demo_env_def)
  have a12: "?text = (case response ?r2 of
                     Present (Some t) \<Rightarrow>
                       if t = [] then ''I processed the tool responses but have nothing specific to add.''
                       else t
                   | Present None \<Rightarrow> ''I processed the tool responses but have nothing specific to add.''
                   | Absent \<Rightarrow> ''I processed the tool responses but have nothing specific to add.'')"
    by simp
  show ?thesis
    using followup_text_is_final [OF a1 a2 a3 am a4 a5 a6 a7 a8 a9 a10 a11 a12] by simp
qed

subsection \<open>What a round with tool calls leaves, whatever the followup completion does\<close>

lemma followup_history_shape:
  "\<exists>tail. history (snd (followup e c ot resps st)) = history st @ map fix_response resps @ tail
          \<and> filter is_ToolMsg tail = []"
  by (auto simp: followup_def Let_def split: prod.splits sum.splits)

lemma followup_trace_prefix:
  "prefix (trace st @ [Completion c (history st @ map fix_response resps) ot])
     (trace (snd (followup e c ot resps st)))"
  by (auto simp: followup_def Let_def prefix_def split: prod.splits sum.splits)

lemma process_round_trace:
  "prefix (trace (snd (round_body e c ot reg debug st)))
     (trace (snd (process_round e c ot reg debug st)))"
  by (auto simp: process_round_def print_markup_def
           split: prod.splits signal.splits option.splits)

lemma process_round_tools_history:
  assumes "ask e (world st) = (Inr line, w1)"
      and "u = strip line"
      and "lower u \<notin> set [''exit'', ''quit'']"
      and "markup_error e (if u \<noteq> [] then u else ''[No Message]'') = None"
      and "h1 = history st @ [UserMsg u]"
      and "tr2 = trace st @ [Asked, Printed (YouPanel (if u \<noteq> [] then u else ''[No Message]'')),
                             Completion c h1 ot]"
      and "create_completion e c h1 ot w1 = (Inr reply, w2)"
      and "tool_calls reply \<noteq> []"
      and "entries_of (tool_calls reply) = Inr es"
      and "dispatch_tools e reg debug (tool_calls reply) ([], tr2, w2) = (None, resps, tr3, w3)"
      and "h2 = h1 @ [AssistantCalls (or_else (dict_get (response reply) ''No response'')
                                        ''I'll help you with that.'') es]
                  @ map fix_response resps"
  shows "\<exists>tail. history (snd (process_round e c ot reg debug st)) = h2 @ tail
               \<and> filter is_ToolMsg tail = []"
    and "prefix (tr3 @ [Completion c h2 ot]) (trace (snd (process_round e c ot reg debug st)))"
proof -
  let ?st2 = "\<lparr>history = h1 @ [AssistantCalls (or_else (dict_get (response reply) ''No response'')
                                        ''I'll help you with that.'') es],
               trace = tr3, world = w3\<rparr>"
  have rb: "round_body e c ot reg debug st = followup e c ot resps ?st2"
    using assms(1-10) by (rule round_body_tools)
  from followup_history_shape [of e c ot resps ?st2]
  show "\<exists>tail. history (snd (process_round e c ot reg debug st)) = h2 @ tail
               \<and> filter is_ToolMsg tail = []"
    using assms(11) by (simp add: process_round_history_eq rb)
  have "prefix (tr3 @ [Completion c h2 ot]) (trace (snd (round_body e c ot reg debug st)))"
    using followup_trace_prefix [of ?st2 c resps ot e] assms(11) by (simp add: rb)
  then show "prefix (tr3 @ [Completion c h2 ot]) (trace (snd (process_round e c ot reg debug st)))"
    using process_round_trace [of e c ot reg debug st] by (rule prefix_order.trans)
qed

subsection \<open>A call for a tool that no server exposes\<close>

lemma dispatch_tools_append:
  "dispatch_tools e reg debug (xs @ ys) s =
     (case dispatch_tools e reg debug xs s of
        (Some x, s') \<Rightarrow> (Some x, s')
      | (None, s') \<Rightarrow> dispatch_tools e reg debug ys s')"
  by (induction xs arbitrary: s) (auto split: prod.splits option.splits)

lemma dispatch_tools_skip_unknown:
  assumes "requested tc = Some n" and "reg n = None"
      and "markup_error e (tool_not_found_text n) = None"
      and "dispatch_tools e reg debug before s0 = (None, r1, t1, wa)"
  shows "dispatch_tools e reg debug (before @ tc # rest) s0 =
           dispatch_tools e reg debug rest (r1, t1 @ [Printed (ToolNotFound n)], wa)"
  using assms(4)
    dispatch_one_unknown_rendered [where reg = reg and e = e and debug = debug and resps = r1
                            and tr = t1 and w = wa, OF assms(1,2,3)]
  by (simp add: dispatch_tools_append)

lemma unrouted_not_routable: "requested tc = Some n \<Longrightarrow> reg n = None \<Longrightarrow> \<not> routable reg tc"
  by (simp add: routable_def)

text \<open>
  Claim C1, as the code has it. A call that asks for a name absent from the routing table
  is only reported on the console. When the notice of line 119 is rendered, the dispatch
  step prints that the tool was not found on any server, makes no call to a server,
  records no tool response and raises nothing. The calls after it are dispatched from the
  unchanged responses, and when they end without an exception, the tool responses of the
  round are those of the other calls, the history that is sent to the followup
  completion holds them and no turn for the unknown call, and the followup completion
  is asked with that history, whatever it then returns or raises.
\<close>

theorem unknown_tool_is_skipped:
  assumes "requested tc = Some n" and "reg n = None"
      and "markup_error e (tool_not_found_text n) = None"
      and "ask e (world st) = (Inr line, w1)"
      and "u = strip line"
      and "lower u \<notin> set [''exit'', ''quit'']"
      and "markup_error e (if u \<noteq> [] then u else ''[No Message]'') = None"
      and "h1 = history st @ [UserMsg u]"
      and "tr2 = trace st @ [Asked, Printed (YouPanel (if u \<noteq> [] then u else ''[No Message]'')),
                             Completion c h1 ot]"
      and "create_completion e c h1 ot w1 = (Inr reply, w2)"
      and "tool_calls reply = before @ tc # rest"
      and "entries_of (tool_calls reply) = Inr es"
      and "dispatch_tools e reg debug before ([], tr2, w2) = (None, r1, t1, wa)"
      and "dispatch_tools e reg debug rest (r1, t1 @ [Printed (ToolNotFound n)], wa)
             = (None, resps, tr3, w3)"
      and "h2 = h1 @ [AssistantCalls (or_else (dict_get (response reply) ''No response'')
                                        ''I'll help you with that.'') es]
                  @ map fix_response resps"
  shows "dispatch_one e reg debug tc (r1, t1, wa) = (None, r1, t1 @ [Printed (ToolNotFound n)], wa)
         \<and> map tool_call_id resps = map tc_id (filter (routable reg) (before @ rest))
         \<and> prefix h2 (history (snd (process_round e c ot reg debug st)))
         \<and> prefix (tr3 @ [Completion c h2 ot]) (trace (snd (process_round e c ot reg debug st)))"
proof -
  have one: "dispatch_one e reg debug tc (r1, t1, wa) = (None, r1, t1 @ [Printed (ToolNotFound n)], wa)"
    using assms(1,2,3) by (rule dispatch_one_unknown_rendered)
  have d: "dispatch_tools e reg debug (tool_calls reply) ([], tr2, w2) = (None, resps, tr3, w3)"
    using dispatch_tools_skip_unknown [OF assms(1) assms(2) assms(3) assms(13), of rest]
      assms(11,14) by simp
  have ne: "tool_calls reply \<noteq> []" using assms(11) by simp
  have nr: "\<not> routable reg tc" using assms(1,2) by (rule unrouted_not_routable)
  from dispatch_tools_responses [OF d]
  have ids: "map tool_call_id resps = map tc_id (filter (routable reg) (before @ rest))"
    using assms(11) nr by auto
  note round = process_round_tools_history [OF assms(4) assms(5) assms(6) assms(7) assms(8)
      assms(9) assms(10) ne assms(12) d assms(15)]
  from round(1) have h: "prefix h2 (history (snd (process_round e c ot reg debug st)))"
    by (auto simp: prefix_def)
  from one ids h round(2) show ?thesis by blast
qed

theorem unknown_tool_is_skipped_witness:
  "dispatch_one demo_env demo_registry False (demo_call ''c1'' ''subtract'' ''{}'')
     ([], [Asked, Printed (YouPanel ''compute''),
           Completion demo_client
             [SystemMsg ''You are a helpful assistant.'', UserMsg ''compute''] JNull],
      \<lparr>pending_input = [], pending_completions = [], env_vars = []\<rparr>)
   = (None, [],
      [Asked, Printed (YouPanel ''compute''),
       Completion demo_client
         [SystemMsg ''You are a helpful assistant.'', UserMsg ''compute''] JNull,
       Printed (ToolNotFound ''subtract'')],
      \<lparr>pending_input = [], pending_completions = [], env_vars = []\<rparr>)
   \<and> map tool_call_id [ToolMsg ''c2'' ''add'' (Some ''4'')]
       = map tc_id (filter (routable demo_registry) ([] @ [demo_call ''c2'' ''add'' ''[2, 2]'']))
   \<and> prefix
       [SystemMsg ''You are a helpful assistant.'', UserMsg ''compute'',
        AssistantCalls ''No response''
          [\<lparr>ce_id = ''c1'', ce_name = Some ''subtract'', ce_arguments = Some ''{}''\<rparr>,
           \<lparr>ce_id = ''c2'', ce_name = Some ''add'', ce_arguments = Some ''[2, 2]''\<rparr>],
        ToolMsg ''c2'' ''add'' (Some ''4'')]
       (history (snd (process_round demo_env demo_client JNull demo_registry False
          (demo_session [''compute'']
             [\<lparr>response = Absent,
               tool_calls = [demo_call ''c1'' ''subtract'' ''{}'',
                             demo_call ''c2'' ''add'' ''[2, 2]'']\<rparr>]))))
   \<and> prefix
       [Asked, Printed (YouPanel ''compute''),
        Completion demo_client
          [SystemMsg ''You are a helpful assistant.'', UserMsg ''compute''] JNull,
        Printed (ToolNotFound ''subtract''),
        Printed (ToolInvocationPanel ''add'' (JArr [JNum 2, JNum 2])),
        BackendCall ''add'' (JArr [JNum 2, JNum 2]) 1,
        Completion demo_client
          [SystemMsg ''You are a helpful assistant.'', UserMsg ''compute'',
           AssistantCalls ''No response''
             [\<lparr>ce_id = ''c1'', ce_name = Some ''subtract'', ce_arguments = Some ''{}''\<rparr>,
              \<lparr>ce_id = ''c2'', ce_name = Some ''add'', ce_arguments = Some ''[2, 2]''\<rparr>],
           ToolMsg ''c2'' ''add'' (Some ''4'')] JNull]
       (trace (snd (process_round demo_env demo_client JNull demo_registry False
          (demo_session [''compute'']
             [\<lparr>response = Absent,
               tool_calls = [demo_call ''c1'' ''subtract'' ''{}'',
                             demo_call ''c2'' ''add'' ''[2, 2]'']\<rparr>]))))"
proof -
  let ?tc = "demo_call ''c1'' ''subtract'' ''{}''"
  let ?tc2 = "demo_call ''c2'' ''add'' ''[2, 2]''"
  let ?r1 = "\<lparr>response = Absent, tool_calls = [?tc, ?tc2]\<rparr>"
  let ?st = "demo_session [''compute''] [?r1]"
  let ?w1 = "\<lparr>pending_input = [], pending_completions = [?r1], env_vars = []\<rparr>"
  let ?w2 = "\<lparr>pending_input = [], pending_completions = [], env_vars = []\<rparr>"
  let ?h1 = "[SystemMsg ''You are a helpful assistant.'', UserMsg ''compute'']"
  let ?tr2 = "[Asked, Printed (YouPanel ''compute''), Completion demo_client ?h1 JNull]
                :: nat event list"
  let ?es = "[\<lparr>ce_id = ''c1'', ce_name = Some ''subtract'', ce_arguments = Some ''{}''\<rparr>,
              \<lparr>ce_id = ''c2'', ce_name = Some ''add'', ce_arguments = Some ''[2, 2]''\<rparr>]"
  let ?resps = "[ToolMsg ''c2'' ''add'' (Some ''4'')]"
  let ?tr3 = "?tr2 @ [Printed (ToolNotFound ''subtract''),
                      Printed (ToolInvocationPanel ''add'' (JArr [JNum 2, JNum 2])),
                      BackendCall ''add'' (JArr [JNum 2, JNum 2]) 1]"
  let ?h2 = "?h1 @ [AssistantCalls ''No response'' ?es] @ ?resps"
  have b1: "requested ?tc = Some ''subtract''"
    by (simp add: requested_def demo_call_def)
  have b2: "demo_registry ''subtract'' = None"
    by (simp add: demo_registry_def)
  have b3: "markup_error demo_env (tool_not_found_text ''subtract'') = None"
    by (simp add: demo_env_def demo_markup_error_def tool_not_found_text_def apostrophe_def)
  have a1: "ask demo_env (world ?st) = (Inr ''compute'', ?w1)"
    by (simp add: demo_env_def demo_session_def)
  have a2: "''compute'' = strip ''compute''"
    by (simp add: strip_def is_space_def)
  have a3: "lower ''compute'' \<notin> set [''exit'', ''quit'']"
    by (simp add: lower_def lower_char_def capital_letters_def small_letters_def)
  have am: "markup_error demo_env (if ''compute'' \<noteq> [] then ''compute'' else ''[No Message]'') = None"
    by (simp add: demo_env_def demo_markup_error_def)
  have a4: "?h1 = history ?st @ [UserMsg ''compute'']"
    by (simp add: demo_session_def)
  have a5: "?tr2 = trace ?st @ [Asked,
              Printed (YouPanel (if ''compute'' \<noteq> [] then ''compute'' else ''[No Message]'')),
              Completion demo_client ?h1 JNull]"
    by (simp add: demo_session_def)
  have a6: "create_completion demo_env demo_client ?h1 JNull ?w1 = (Inr ?r1, ?w2)"
    by (simp add: demo_env_def)
  have a7: "tool_calls ?r1 = [] @ ?tc # [?tc2]" by simp
  have a8: "entries_of (tool_calls ?r1) = Inr ?es"
    by (simp add: entry_of_def demo_call_def)
  have a9: "dispatch_tools demo_env demo_registry False [] ([], ?tr2, ?w2) = (None, [], ?tr2, ?w2)"
    by simp
  have a10: "dispatch_tools demo_env demo_registry False [?tc2]
               ([], ?tr2 @ [Printed (ToolNotFound ''subtract'')], ?w2)
              = (None, ?resps, ?tr3, ?w2)"
    by (simp add: demo_simps)
  have a11: "?h2 = ?h1 @ [AssistantCalls (or_else (dict_get (response ?r1) ''No response'')
                                        ''I'll help you with that.'') ?es]
                  @ map fix_response ?resps"
    by simp
  show ?thesis
    using unknown_tool_is_skipped [OF b1 b2 b3 a1 a2 a3 am a4 a5 a6 a7 a8 a9 a10 a11] by simp
qed

theorem unknown_tool_counterexample:
  "demo_registry ''subtract'' = None
   \<and> history (snd (process_round demo_env demo_client JNull demo_registry False
        (demo_session [''what is 5-3'']
           [\<lparr>response = Absent, tool_calls = [demo_call ''c1'' ''subtract'' ''{}'']\<rparr>,
            \<lparr>response = Present (Some ''It is 2.''), tool_calls = []\<rparr>])))
     = [SystemMsg ''You are a helpful assistant.'', UserMsg ''what is 5-3'',
        AssistantCalls ''No response''
          [\<lparr>ce_id = ''c1'', ce_name = Some ''subtract'', ce_arguments = Some ''{}''\<rparr>],
        AssistantMsg (Some ''It is 2.'')]
   \<and> \<not> list_ex is_ToolMsg (history (snd (process_round demo_env demo_client JNull demo_registry False
        (demo_session [''what is 5-3'']
           [\<lparr>response = Absent, tool_calls = [demo_call ''c1'' ''subtract'' ''{}'']\<rparr>,
            \<lparr>response = Present (Some ''It is 2.''), tool_calls = []\<rparr>]))))"
  by (simp add: demo_simps)

text \<open>
  When the notice of line 119 is not rendered, because the requested name closes a
  markup tag that is not open, the \<open>MarkupError\<close> leaves the dispatch loop: the calls
  after it are not dispatched.
\<close>

lemma unknown_tool_notice_not_rendered:
  "dispatch_tools demo_env demo_registry False
     [demo_call ''c1'' ''a[/b]'' ''{}'', demo_call ''c2'' ''add'' ''[2, 2]'']
     ([], [], \<lparr>pending_input = [], pending_completions = [], env_vars = []\<rparr>)
   = (Some (MarkupError ''closing tag '[/b]' at position 12 doesn't match any open tag''),
      [], [], \<lparr>pending_input = [], pending_completions = [], env_vars = []\<rparr>)"
  by (simp add: demo_simps)

subsection \<open>How many tool turns a round appends, and in which order\<close>

lemma fix_response_ToolMsg [simp]: "is_ToolMsg (fix_response m) = is_ToolMsg m"
  by (cases m rule: fix_response.cases) auto

lemma fix_response_id [simp]: "tool_call_id (fix_response m) = tool_call_id m"
  by (cases m rule: fix_response.cases) auto






subsection \<open>Arguments that do not parse\<close>

lemma call_backend_trace:
  "prefix (tr @ [Printed (ToolInvocationPanel n args), BackendCall n args srv])
     (fst (snd (snd (call_backend e debug tc n srv args (resps, tr, w)))))"
  by (auto simp: call_backend_def print_markup_def Let_def prefix_def
           split: prod.splits sum.splits option.splits)

lemma parse_arguments_decode_error:
  assumes "fn_arguments f = Present a"
      and "json_loads e (or_else a ''{}'') = Inl (JSONDecodeError msg)"
      and "markup_error e (parse_error_text n msg) = None"
  shows "parse_arguments e n f tr = (Inr (JObj []), tr @ [Printed (ArgumentParseError n msg)])"
  using assms by (simp add: parse_arguments_def empty_arguments_after_def print_markup_def)

text \<open>
  Claim C3, as the code has it. When \<open>json.loads\<close> raises \<open>JSONDecodeError\<close> for the
  argument string of a call to a registered tool, and the notice of line 127 is rendered,
  the dispatch step prints the parse error, takes the empty dictionary as the arguments
  and goes on as for any other call: it is the call to the server with the empty
  dictionary, and the tool invocation panel and the call to the server follow the parse
  error in the trace. The response recorded for the call is the one the server gives for
  the empty arguments.
\<close>

theorem parse_failure_calls_backend:
  assumes "tc_function tc = Present f"
      and "requested tc = Some n"
      and "reg n = Some srv"
      and "fn_arguments f = Present a"
      and "json_loads e (or_else a ''{}'') = Inl (JSONDecodeError msg)"
      and "markup_error e (parse_error_text n msg) = None"
  shows "dispatch_one e reg debug tc (resps, tr, w) =
           call_backend e debug tc n srv (JObj []) (resps, tr @ [Printed (ArgumentParseError n msg)], w)
         \<and> prefix (tr @ [Printed (ArgumentParseError n msg),
                         Printed (ToolInvocationPanel n (JObj [])),
                         BackendCall n (JObj []) srv])
             (fst (snd (snd (dispatch_one e reg debug tc (resps, tr, w)))))"
proof -
  have eq: "dispatch_one e reg debug tc (resps, tr, w) =
           call_backend e debug tc n srv (JObj []) (resps, tr @ [Printed (ArgumentParseError n msg)], w)"
    using dispatch_one_routed [where reg = reg and e = e and debug = debug and resps = resps
                                 and tr = tr and w = w, OF assms(1) assms(2) assms(3)]
      parse_arguments_decode_error [OF assms(4) assms(5) assms(6), of tr]
    by simp
  show ?thesis
    using call_backend_trace [of "tr @ [Printed (ArgumentParseError n msg)]" n "JObj []" srv e debug tc resps w]
    by (simp add: eq)
qed

theorem parse_failure_calls_backend_witness:
  "dispatch_one demo_env demo_registry True (demo_call ''c3'' ''add'' ''{bad'')
     ([], [], \<lparr>pending_input = [], pending_completions = [], env_vars = []\<rparr>)
   = call_backend demo_env True (demo_call ''c3'' ''add'' ''{bad'') ''add'' 1 (JObj [])
       ([], [Printed (ArgumentParseError ''add''
                ''Expecting property name enclosed in double quotes: line 1 column 2 (char 1)'')],
        \<lparr>pending_input = [], pending_completions = [], env_vars = []\<rparr>)
   \<and> prefix [Printed (ArgumentParseError ''add''
                ''Expecting property name enclosed in double quotes: line 1 column 2 (char 1)''),
             Printed (ToolInvocationPanel ''add'' (JObj [])),
             BackendCall ''add'' (JObj []) 1]
       (fst (snd (snd (dispatch_one demo_env demo_registry True (demo_call ''c3'' ''add'' ''{bad'')
          ([], [], \<lparr>pending_input = [], pending_completions = [], env_vars = []\<rparr>)))))"
proof -
  let ?f = "\<lparr>fn_name = Present (Some ''add''), fn_arguments = Present (Some ''{bad'')\<rparr>"
  let ?msg = "''Expecting property name enclosed in double quotes: line 1 column 2 (char 1)''"
  have a1: "tc_function (demo_call ''c3'' ''add'' ''{bad'') = Present ?f"
    by (simp add: demo_call_def)
  have a2: "requested (demo_call ''c3'' ''add'' ''{bad'') = Some ''add''"
    by (simp add: demo_call_def requested_def)
  have a3: "demo_registry ''add'' = Some 1"
    by (simp add: demo_registry_def)
  have a4: "fn_arguments ?f = Present (Some ''{bad'')" by simp
  have a5: "json_loads demo_env (or_else (Some ''{bad'') ''{}'') = Inl (JSONDecodeError ?msg)"
    by (simp add: demo_env_def)
  have a6: "markup_error demo_env (parse_error_text ''add'' ?msg) = None"
    by (simp add: demo_env_def demo_markup_error_def parse_error_text_def apostrophe_def)
  show ?thesis
    using parse_failure_calls_backend [where reg = demo_registry and e = demo_env and debug = True
            and resps = "[]" and tr = "[]"
            and w = "\<lparr>pending_input = [], pending_completions = [], env_vars = []\<rparr>",
            OF a1 a2 a3 a4 a5 a6]
    unfolding append_Nil .
qed

theorem parse_failure_counterexample:
  "json_loads demo_env ''{bad''
     = Inl (JSONDecodeError
              ''Expecting property name enclosed in double quotes: line 1 column 2 (char 1)'')
   \<and> dispatch_one demo_env demo_registry False (demo_call ''c3'' ''add'' ''{bad'')
       ([], [], \<lparr>pending_input = [], pending_completions = [], env_vars = []\<rparr>)
     = (None,
        [ToolMsg ''c3'' ''add'' (Some ''Error: missing operands'')],
        [Printed (ArgumentParseError ''add''
           ''Expecting property name enclosed in double quotes: line 1 column 2 (char 1)''),
         Printed (ToolInvocationPanel ''add'' (JObj [])),
         BackendCall ''add'' (JObj []) 1,
         Printed (ToolCallError ''add'' ''missing operands'')],
        \<lparr>pending_input = [], pending_completions = [], env_vars = []\<rparr>)"
  by (simp add: demo_simps)

text \<open>
  The other outcomes of \<open>json.loads\<close>. A string that is valid JSON is passed to the
  server as it was parsed, whether it is a dictionary or not. An exception that is
  neither \<open>JSONDecodeError\<close> nor \<open>AttributeError\<close>, as the \<open>ValueError\<close> for an
  integer of more than 4300 digits and the \<open>RecursionError\<close> for deeply nested
  brackets, is caught by neither clause of lines 126 to 131: it leaves the dispatch loop
  and the server is not called for this call.
\<close>

lemma parsed_arguments_are_passed_on:
  assumes "tc_function tc = Present f"
      and "requested tc = Some n"
      and "reg n = Some srv"
      and "fn_arguments f = Present a"
      and "json_loads e (or_else a ''{}'') = Inr v"
  shows "dispatch_one e reg debug tc (resps, tr, w) =
           call_backend e debug tc n srv v (resps, tr, w)"
  using dispatch_one_routed [where reg = reg and e = e and debug = debug and resps = resps
                               and tr = tr and w = w, OF assms(1) assms(2) assms(3)]
    assms(4,5)
  by (simp add: parse_arguments_def)

lemma other_parse_exception_leaves_dispatch:
  assumes "tc_function tc = Present f"
      and "requested tc = Some n"
      and "reg n = Some srv"
      and "fn_arguments f = Present a"
      and "json_loads e (or_else a ''{}'') = Inl (OtherException msg)"
  shows "dispatch_tools e reg debug (tc # rest) (resps, tr, w) =
           (Some (OtherException msg), resps, tr, w)"
  using dispatch_one_routed [where reg = reg and e = e and debug = debug and resps = resps
                               and tr = tr and w = w, OF assms(1) assms(2) assms(3)]
    assms(4,5)
  by (simp add: parse_arguments_def)

subsection \<open>A server that reports an error\<close>






text \<open>
  When the notice of line 147 is not rendered, because the error string of the server
  closes a markup tag that is not open (as \<open>file not found: [/etc/passwd]\<close> does), the
  \<open>MarkupError\<close> is raised before the response is recorded and leaves the dispatch loop.
\<close>

lemma backend_error_notice_not_rendered:
  assumes "send_call_tool e n args srv w = (Inr result, w')"
      and "isError result"
      and "markup_error e (tool_error_text n (py_str (dict_get (error result) ''Unknown error'')))
             = Some m"
  shows "call_backend e debug tc n srv args (resps, tr, w) =
           (Some (MarkupError m), resps,
            tr @ [Printed (ToolInvocationPanel n args), BackendCall n args srv], w')"
  using assms
  by (simp add: call_backend_def print_markup_def Let_def)

subsection \<open>How a session ends\<close>















text \<open>
  Two more ways in which a session ends without an exit keyword. The user types
  \<open>[/b]\<close>: the panel of line 76 raises \<open>MarkupError\<close>, the handler of the round
  prints a text that holds the message of that error and raises \<open>MarkupError\<close> again
  inside the handler, which ends the loop; the print of line 50 then fails in the same
  way, and the exception leaves \<open>handle_chat_mode\<close>. And an exception of the
  constructor of the client, which is called outside the \<open>try\<close> of the loop, ends
  \<open>process_conversation\<close> before the first prompt.
\<close>

lemma unrendered_error_ends_session:
  "process_loop 1 demo_env demo_client JNull demo_registry False
     (demo_session [''[/b]'', ''hello''] [])
     = Some (Some (MarkupError ''closing tag '[/b]' at position 50 doesn't match any open tag''),
        \<lparr>history = [SystemMsg ''You are a helpful assistant.''],
         trace = [Asked],
         world = \<lparr>pending_input = [''hello''], pending_completions = [], env_vars = []\<rparr>\<rparr>)
   \<and> map_option fst
        (handle_chat_mode 1 demo_env [0] ''openai'' ''gpt-4o-mini'' False
           \<lparr>pending_input = [''[/b]'', ''hello''], pending_completions = [], env_vars = []\<rparr>)
     = Some (Some (MarkupError ''closing tag '[/b]' at position 44 doesn't match any open tag''))"
  by (simp add: demo_simps handle_chat_mode_def process_conversation_def
        make_client_def chat_mode_except_def generate_system_prompt_def)

lemma constructor_exception_ends_session:
  assumes "client_init e (make_client e (world st)) (world st) = (Some x, w')"
  shows "process_conversation n e client_arg ot reg tools debug st =
           Some (Some x, st\<lparr>trace := trace st @ [NewClient (make_client e (world st))],
                             world := w'\<rparr>)"
  using assms by (simp add: process_conversation_def Let_def)

subsection \<open>The client of the conversation\<close>

lemma extended_by_iff:
  "extended_by c tr tr' = (\<exists>new. tr' = tr @ new \<and> list_all (uses_client c) new)"
proof
  assume "extended_by c tr tr'"
  then have "tr' = tr @ drop (length tr) tr'" and "list_all (uses_client c) (drop (length tr) tr')"
    by (auto simp: extended_by_def) (metis append_take_drop_id)
  then show "\<exists>new. tr' = tr @ new \<and> list_all (uses_client c) new" by blast
next
  assume "\<exists>new. tr' = tr @ new \<and> list_all (uses_client c) new"
  then show "extended_by c tr tr'" by (auto simp: extended_by_def)
qed

lemma extended_by_refl: "extended_by c tr tr"
  by (simp add: extended_by_def)

lemma extended_by_trans:
  "extended_by c a b \<Longrightarrow> extended_by c b d \<Longrightarrow> extended_by c a d"
  by (auto simp: extended_by_iff)

lemma extended_by_append:
  "list_all (uses_client c) new \<Longrightarrow> extended_by c tr (tr @ new)"
  by (auto simp: extended_by_iff)

lemma print_markup_extends:
  "print_markup e s n tr = (x, tr') \<Longrightarrow> extended_by c tr tr'"
  by (auto simp: print_markup_def extended_by_iff split: option.splits)

lemma skip_call_extends:
  "skip_call e s n (resps, tr, w) = (x, resps', tr', w') \<Longrightarrow> extended_by c tr tr'"
  by (auto simp: skip_call_def split: prod.splits dest: print_markup_extends)

lemma empty_arguments_after_extends:
  "empty_arguments_after e s n tr = (r, tr') \<Longrightarrow> extended_by c tr tr'"
  by (auto simp: empty_arguments_after_def split: prod.splits option.splits
           dest: print_markup_extends)

lemma parse_arguments_extends:
  "parse_arguments e n f tr = (r, tr') \<Longrightarrow> extended_by c tr tr'"
  by (auto simp: parse_arguments_def extended_by_refl
           split: slot.splits sum.splits pyexc.splits
           dest: empty_arguments_after_extends)

lemma call_backend_extends:
  "call_backend e debug tc n srv args (resps, tr, w) = (x, resps', tr', w') \<Longrightarrow> extended_by c tr tr'"
  by (auto simp: call_backend_def print_markup_def Let_def extended_by_iff
           split: prod.splits sum.splits if_splits option.splits)

lemma dispatch_one_extends:
  assumes "dispatch_one e reg debug tc (resps, tr, w) = (x, resps', tr', w')"
  shows "extended_by c tr tr'"
proof (cases "requested tc")
  case None
  then have "nameless tc" by (simp add: requested_None_iff)
  from dispatch_one_nameless [OF this, of e reg debug resps tr w]
  obtain s m where "dispatch_one e reg debug tc (resps, tr, w) = skip_call e s m (resps, tr, w)"
    by blast
  with assms have "skip_call e s m (resps, tr, w) = (x, resps', tr', w')" by simp
  then show ?thesis by (rule skip_call_extends)
next
  case (Some n)
  then obtain f where f: "tc_function tc = Present f"
    by (auto simp: requested_def split: slot.splits)
  show ?thesis
  proof (cases "reg n")
    case None
    from dispatch_one_unknown [where reg = reg and e = e and debug = debug
           and s = "(resps, tr, w)", OF Some None] assms
    have "skip_call e (tool_not_found_text n) (ToolNotFound n) (resps, tr, w) = (x, resps', tr', w')"
      by simp
    then show ?thesis by (rule skip_call_extends)
  next
    case (Some srv)
    obtain r tr0 where pa: "parse_arguments e n f tr = (r, tr0)"
      by (cases "parse_arguments e n f tr")
    then have e0: "extended_by c tr tr0" by (rule parse_arguments_extends)
    from dispatch_one_routed [where reg = reg and e = e and debug = debug and resps = resps
           and tr = tr and w = w, OF f \<open>requested tc = Some n\<close> Some] assms pa
    have eq: "(case r of Inl y \<Rightarrow> (Some y, resps, tr0, w)
                | Inr arguments \<Rightarrow> call_backend e debug tc n srv arguments (resps, tr0, w))
              = (x, resps', tr', w')"
      by simp
    show ?thesis
    proof (cases r)
      case (Inl y)
      with eq have "tr' = tr0" by simp
      with e0 show ?thesis by simp
    next
      case (Inr arguments)
      with eq have "call_backend e debug tc n srv arguments (resps, tr0, w) = (x, resps', tr', w')"
        by simp
      then have "extended_by c tr0 tr'" by (rule call_backend_extends)
      with e0 show ?thesis by (rule extended_by_trans)
    qed
  qed
qed

lemma dispatch_tools_extends:
  "dispatch_tools e reg debug tcs (resps, tr, w) = (x, resps', tr', w') \<Longrightarrow> extended_by c tr tr'"
proof (induction tcs arbitrary: resps tr w)
  case Nil
  then show ?case by (simp add: extended_by_refl)
next
  case (Cons tc tcs)
  obtain y r1 t1 w1 where d: "dispatch_one e reg debug tc (resps, tr, w) = (y, r1, t1, w1)"
    by (cases "dispatch_one e reg debug tc (resps, tr, w)") auto
  have e1: "extended_by c tr t1" using d by (rule dispatch_one_extends)
  show ?case
  proof (cases y)
    case None
    with Cons.prems d have "dispatch_tools e reg debug tcs (r1, t1, w1) = (x, resps', tr', w')"
      by simp
    then have "extended_by c t1 tr'" by (rule Cons.IH)
    with e1 show ?thesis by (rule extended_by_trans)
  next
    case (Some z)
    with Cons.prems d have "tr' = t1" by simp
    with e1 show ?thesis by simp
  qed
qed

lemma followup_extends:
  "extended_by c (trace st) (trace (snd (followup e c ot resps st)))"
  by (auto simp: followup_def Let_def extended_by_iff split: prod.splits sum.splits)

lemma after_user_turn_extends:
  "extended_by c (trace st) (trace (snd (after_user_turn e c ot reg debug st)))"
proof -
  let ?tr2 = "trace st @ [Completion c (history st) ot]"
  have e0: "extended_by c (trace st) ?tr2"
    by (rule extended_by_append) simp
  obtain r w2 where cc: "create_completion e c (history st) ot (world st) = (r, w2)"
    by (cases "create_completion e c (history st) ot (world st)")
  show ?thesis
  proof (cases r)
    case (Inl x)
    with cc e0 show ?thesis by (simp add: after_user_turn_def Let_def)
  next
    case (Inr reply)
    show ?thesis
    proof (cases "tool_calls reply = []")
      case True
      have "extended_by c (trace st)
              (trace st @ [Completion c (history st) ot,
                           Printed (AssistantPanel
                             (or_else (dict_get (response reply) ''No response'') ''[No Response]''))])"
        by (rule extended_by_append) simp
      with cc Inr True show ?thesis by (simp add: after_user_turn_def Let_def)
    next
      case False
      show ?thesis
      proof (cases "entries_of (tool_calls reply)")
        case (Inl x)
        with cc Inr False e0 show ?thesis by (simp add: after_user_turn_def Let_def)
      next
        case es: (Inr entries)
        obtain x resps tr3 w3 where
          d: "dispatch_tools e reg debug (tool_calls reply) ([], ?tr2, w2) = (x, resps, tr3, w3)"
          by (cases "dispatch_tools e reg debug (tool_calls reply) ([], ?tr2, w2)") auto
        then have "extended_by c ?tr2 tr3" by (rule dispatch_tools_extends)
        with e0 have e3: "extended_by c (trace st) tr3" by (rule extended_by_trans)
        show ?thesis
        proof (cases x)
          case (Some y)
          with cc Inr False es d e3 show ?thesis by (simp add: after_user_turn_def Let_def)
        next
          case None
          let ?st2 = "\<lparr>history = history st @ [AssistantCalls
                         (or_else (dict_get (response reply) ''No response'')
                            ''I'll help you with that.'') entries],
                       trace = tr3, world = w3\<rparr>"
          have "extended_by c (trace ?st2) (trace (snd (followup e c ot resps ?st2)))"
            by (rule followup_extends)
          then have "extended_by c tr3 (trace (snd (followup e c ot resps ?st2)))" by simp
          with e3 have "extended_by c (trace st) (trace (snd (followup e c ot resps ?st2)))"
            by (rule extended_by_trans)
          with cc Inr False es d None show ?thesis by (simp add: after_user_turn_def Let_def)
        qed
      qed
    qed
  qed
qed

lemma round_body_extends:
  "extended_by c (trace st) (trace (snd (round_body e c ot reg debug st)))"
proof -
  have later: "extended_by c (trace st)
                 (trace (snd (after_user_turn e c ot reg debug
                    \<lparr>history = h, trace = trace st @ [Asked, Printed (YouPanel p)], world = w1\<rparr>)))"
    for h p w1
  proof -
    let ?s = "\<lparr>history = h, trace = trace st @ [Asked, Printed (YouPanel p)], world = w1\<rparr>"
    have "extended_by c (trace st) (trace ?s)"
      using extended_by_append [of c "[Asked, Printed (YouPanel p)]" "trace st"] by simp
    moreover have "extended_by c (trace ?s) (trace (snd (after_user_turn e c ot reg debug ?s)))"
      by (rule after_user_turn_extends)
    ultimately show ?thesis by (rule extended_by_trans)
  qed
  have one: "extended_by c (trace st) (trace st @ [Asked])"
    by (rule extended_by_append) simp
  have two: "extended_by c (trace st) (trace st @ [Asked, Printed ExitingPanel])"
    by (rule extended_by_append) simp
  show ?thesis
    using later one two
    by (auto simp: round_body_def print_markup_def Let_def
             split: prod.splits sum.splits option.splits)
qed

lemma process_round_extends:
  "extended_by c (trace st) (trace (snd (process_round e c ot reg debug st)))"
proof (cases "round_body e c ot reg debug st")
  case (Pair sg st1)
  with round_body_extends [of c st e ot reg debug]
  have e1: "extended_by c (trace st) (trace st1)" by simp
  show ?thesis
  proof (cases sg)
    case (Raised x)
    obtain y tr' where pm: "print_markup e (processing_error_text (exc_str x))
                              (ProcessingError (exc_str x)) (trace st1) = (y, tr')"
      by (cases "print_markup e (processing_error_text (exc_str x))
                   (ProcessingError (exc_str x)) (trace st1)")
    then have "extended_by c (trace st1) tr'" by (rule print_markup_extends)
    with e1 have "extended_by c (trace st) tr'" by (rule extended_by_trans)
    with e1 Pair Raised pm show ?thesis
      by (cases y) (simp_all add: process_round_def)
  qed (use e1 Pair in \<open>simp_all add: process_round_def\<close>)
qed

lemma process_loop_extends:
  "process_loop n e c ot reg debug st = Some (r, st') \<Longrightarrow> extended_by c (trace st) (trace st')"
proof (induction n arbitrary: st)
  case 0
  then show ?case by simp
next
  case (Suc n)
  obtain sg st1 where r: "process_round e c ot reg debug st = (sg, st1)"
    by (cases "process_round e c ot reg debug st")
  have e1: "extended_by c (trace st) (trace st1)"
    using process_round_extends [of c st e ot reg debug] r by simp
  show ?case
  proof (cases sg)
    case Next
    with Suc.prems r have "process_loop n e c ot reg debug st1 = Some (r, st')" by simp
    then have "extended_by c (trace st1) (trace st')" by (rule Suc.IH)
    with e1 show ?thesis by (rule extended_by_trans)
  next
    case Exit
    with Suc.prems r have "st' = st1" by simp
    with e1 show ?thesis by simp
  next
    case (Raised y)
    with Suc.prems r have "st' = st1" by simp
    with e1 show ?thesis by simp
  qed
qed

lemma process_conversation_extends:
  assumes "process_conversation n e client_arg ot reg tools debug st = Some (r, st')"
  shows "extended_by (make_client e (world st)) (trace st) (trace st')"
proof -
  let ?c = "make_client e (world st)"
  obtain x w1 where i: "client_init e ?c (world st) = (x, w1)"
    by (cases "client_init e ?c (world st)")
  have e0: "extended_by ?c (trace st) (trace st @ [NewClient ?c])"
    by (rule extended_by_append) simp
  show ?thesis
  proof (cases x)
    case (Some y)
    with assms i have "trace st' = trace st @ [NewClient ?c]"
      by (auto simp: process_conversation_def Let_def)
    with e0 show ?thesis by simp
  next
    case None
    with assms i have "process_loop n e ?c ot reg debug (st\<lparr>trace := trace st @ [NewClient ?c], world := w1\<rparr>)
                         = Some (r, st')"
      by (simp add: process_conversation_def Let_def)
    then have "extended_by ?c (trace (st\<lparr>trace := trace st @ [NewClient ?c], world := w1\<rparr>)) (trace st')"
      by (rule process_loop_extends)
    then have "extended_by ?c (trace st @ [NewClient ?c]) (trace st')" by simp
    with e0 show ?thesis by (rule extended_by_trans)
  qed
qed

text \<open>
  Claim C10. The arguments \<open>provider\<close> and \<open>model\<close> of \<open>handle_chat_mode\<close> and the
  argument \<open>client\<close> of \<open>process_conversation\<close> have no influence: for any two values
  of them the result is the same, in the same world. Every client that
  \<open>process_conversation\<close> makes and every completion call it issues involve the one
  client that is made from the environment variables \<open>LLM_PROVIDER\<close> and \<open>LLM_MODEL\<close>.
  This client is \<open>openai\<close> with \<open>gpt-4o-mini\<close> when both variables are unset, and it
  is the same in two worlds that agree on the two variables.
\<close>

theorem provider_and_model_arguments_ignored:
  "handle_chat_mode n e server_streams provider1 model1 debug w
     = handle_chat_mode n e server_streams provider2 model2 debug w
   \<and> process_conversation n e client1 ot reg tools debug st
     = process_conversation n e client2 ot reg tools debug st
   \<and> (process_conversation n e client1 ot reg tools debug st = Some (r, st')
        \<longrightarrow> extended_by (make_client e (world st)) (trace st) (trace st'))
   \<and> (getenv e w ''LLM_PROVIDER'' = None \<and> getenv e w ''LLM_MODEL'' = None
        \<longrightarrow> make_client e w = \<lparr>provider = ''openai'', model = ''gpt-4o-mini''\<rparr>)
   \<and> (getenv e w ''LLM_PROVIDER'' = getenv e v ''LLM_PROVIDER''
        \<and> getenv e w ''LLM_MODEL'' = getenv e v ''LLM_MODEL''
        \<longrightarrow> make_client e w = make_client e v)"
proof (intro conjI impI)
  show "handle_chat_mode n e server_streams provider1 model1 debug w
     = handle_chat_mode n e server_streams provider2 model2 debug w"
    by (simp add: handle_chat_mode_def)
  show "process_conversation n e client1 ot reg tools debug st
     = process_conversation n e client2 ot reg tools debug st"
    by (simp add: process_conversation_def)
next
  assume "process_conversation n e client1 ot reg tools debug st = Some (r, st')"
  then show "extended_by (make_client e (world st)) (trace st) (trace st')"
    by (rule process_conversation_extends)
next
  assume "getenv e w ''LLM_PROVIDER'' = None \<and> getenv e w ''LLM_MODEL'' = None"
  then show "make_client e w = \<lparr>provider = ''openai'', model = ''gpt-4o-mini''\<rparr>"
    by (simp add: make_client_def)
next
  assume "getenv e w ''LLM_PROVIDER'' = getenv e v ''LLM_PROVIDER''
        \<and> getenv e w ''LLM_MODEL'' = getenv e v ''LLM_MODEL''"
  then show "make_client e w = make_client e v"
    by (simp add: make_client_def)
qed

theorem provider_and_model_arguments_ignored_witness:
  "handle_chat_mode 2 demo_env [0, 1] ''anthropic'' ''claude'' False
       \<lparr>pending_input = [''hi'', ''exit''],
        pending_completions = [\<lparr>response = Present (Some ''Hello.''), tool_calls = []\<rparr>],
        env_vars = []\<rparr>
     = handle_chat_mode 2 demo_env [0, 1] ''openai'' ''gpt-4o-mini'' False
       \<lparr>pending_input = [''hi'', ''exit''],
        pending_completions = [\<lparr>response = Present (Some ''Hello.''), tool_calls = []\<rparr>],
        env_vars = []\<rparr>
   \<and> process_conversation 2 demo_env (Some \<lparr>provider = ''anthropic'', model = ''claude''\<rparr>)
       JNull demo_registry [] False
       (demo_session [''hi'', ''exit''] [\<lparr>response = Present (Some ''Hello.''), tool_calls = []\<rparr>])
     = Some (None,
        \<lparr>history = [SystemMsg ''You are a helpful assistant.'', UserMsg ''hi'',
                    AssistantMsg (Some ''Hello.'')],
         trace = [NewClient \<lparr>provider = ''openai'', model = ''gpt-4o-mini''\<rparr>,
                  Asked, Printed (YouPanel ''hi''),
                  Completion \<lparr>provider = ''openai'', model = ''gpt-4o-mini''\<rparr>
                    [SystemMsg ''You are a helpful assistant.'', UserMsg ''hi''] JNull,
                  Printed (AssistantPanel ''Hello.''), Asked, Printed ExitingPanel],
         world = \<lparr>pending_input = [], pending_completions = [], env_vars = []\<rparr>\<rparr>)
   \<and> extended_by \<lparr>provider = ''openai'', model = ''gpt-4o-mini''\<rparr> []
        [NewClient \<lparr>provider = ''openai'', model = ''gpt-4o-mini''\<rparr>,
         Asked, Printed (YouPanel ''hi''),
         Completion \<lparr>provider = ''openai'', model = ''gpt-4o-mini''\<rparr>
           [SystemMsg ''You are a helpful assistant.'', UserMsg ''hi''] JNull,
         Printed (AssistantPanel ''Hello.''), Asked, Printed ExitingPanel :: nat event]
   \<and> make_client demo_env
        \<lparr>pending_input = [''hi'', ''exit''],
         pending_completions = [\<lparr>response = Present (Some ''Hello.''), tool_calls = []\<rparr>],
         env_vars = []\<rparr>
     = \<lparr>provider = ''openai'', model = ''gpt-4o-mini''\<rparr>
   \<and> make_client demo_env
        \<lparr>pending_input = [''hi'', ''exit''],
         pending_completions = [\<lparr>response = Present (Some ''Hello.''), tool_calls = []\<rparr>],
         env_vars = []\<rparr>
     = make_client demo_env
        \<lparr>pending_input = [''bye''], pending_completions = [],
         env_vars = [(''HOME'', ''/root'')]\<rparr>"
proof -
  let ?r = "\<lparr>response = Present (Some ''Hello.''), tool_calls = []\<rparr>"
  let ?w = "\<lparr>pending_input = [''hi'', ''exit''], pending_completions = [?r], env_vars = []\<rparr>"
  let ?st = "demo_session [''hi'', ''exit''] [?r]"
  let ?c = "\<lparr>provider = ''openai'', model = ''gpt-4o-mini''\<rparr>"
  let ?st' = "\<lparr>history = [SystemMsg ''You are a helpful assistant.'', UserMsg ''hi'',
                    AssistantMsg (Some ''Hello.'')],
         trace = [NewClient ?c, Asked, Printed (YouPanel ''hi''),
                  Completion ?c [SystemMsg ''You are a helpful assistant.'', UserMsg ''hi''] JNull,
                  Printed (AssistantPanel ''Hello.''), Asked, Printed ExitingPanel],
         world = \<lparr>pending_input = [], pending_completions = [], env_vars = []\<rparr>\<rparr>"
  have h1: "process_conversation 2 demo_env (Some \<lparr>provider = ''anthropic'', model = ''claude''\<rparr>)
              JNull demo_registry [] False ?st = Some (None, ?st')"
    by (simp add: numeral_2_eq_2 process_conversation_def make_client_def demo_simps)
  have h2: "getenv demo_env ?w ''LLM_PROVIDER'' = None \<and> getenv demo_env ?w ''LLM_MODEL'' = None"
    by (simp add: demo_env_def)
  let ?v = "\<lparr>pending_input = [''bye''], pending_completions = [],
             env_vars = [(''HOME'', ''/root'')]\<rparr>"
  have h3: "getenv demo_env ?w ''LLM_PROVIDER'' = getenv demo_env ?v ''LLM_PROVIDER''
            \<and> getenv demo_env ?w ''LLM_MODEL'' = getenv demo_env ?v ''LLM_MODEL''"
    by (simp add: demo_env_def)
  have w: "world ?st = ?w" and t: "trace ?st = []"
    by (simp_all add: demo_session_def)
  note inst = provider_and_model_arguments_ignored
    [of 2 demo_env "[0, 1]" "''anthropic''" "''claude''" False ?w "''openai''" "''gpt-4o-mini''"
        "Some \<lparr>provider = ''anthropic'', model = ''claude''\<rparr>" JNull demo_registry "[]" ?st
        None None ?st' ?v]
  have A: "handle_chat_mode 2 demo_env [0, 1] ''anthropic'' ''claude'' False ?w
             = handle_chat_mode 2 demo_env [0, 1] ''openai'' ''gpt-4o-mini'' False ?w"
    using inst by blast
  have C: "extended_by (make_client demo_env (world ?st)) (trace ?st) (trace ?st')"
    using inst h1 by blast
  have D: "make_client demo_env ?w = ?c"
    using inst h2 by blast
  have E: "make_client demo_env ?w = make_client demo_env ?v"
    using inst h3 by blast
  show ?thesis using A h1 C D E w t by simp
qed

subsection \<open>Two servers that expose the same name\<close>

lemma register_tools_routes:
  "snd (register_tools srv ts (tools, reg)) n = (if exposes ts n then Some srv else reg n)"
proof (induction ts arbitrary: tools reg)
  case Nil
  then show ?case by (simp add: exposes_def)
next
  case (Cons t ts)
  have ex: "exposes (t # ts) n = (n \<noteq> [] \<and> tool_name t = Some n \<or> exposes ts n)"
    by (auto simp: exposes_def)
  show ?case
  proof (cases "tool_name t")
    case None
    then show ?thesis by (simp add: Cons.IH ex)
  next
    case (Some m)
    show ?thesis
    proof (cases "m = []")
      case True
      with Some show ?thesis by (auto simp: Cons.IH ex)
    next
      case False
      with Some show ?thesis by (auto simp: Cons.IH ex)
    qed
  qed
qed

lemma find_append:
  "find P (xs @ ys) = (case find P xs of None \<Rightarrow> find P ys | Some x \<Rightarrow> Some x)"
  by (induction xs) auto

lemma discover_routes:
  "fetch_all e ss w = Inr pairs
   \<Longrightarrow> \<not> isl (fst (discover e ss (tools, reg) tr w))
       \<and> routed (discover e ss (tools, reg) tr w) n =
           (case find (\<lambda>p. exposes (snd p) n) (rev pairs) of
              None \<Rightarrow> reg n
            | Some p \<Rightarrow> Some (fst p))"
proof (induction ss arbitrary: w pairs tools reg tr)
  case Nil
  then show ?case by auto
next
  case (Cons s ss)
  obtain r1 w1 where f: "fetch_tools e s w = (r1, w1)" by (cases "fetch_tools e s w")
  from Cons.prems f obtain ts where r1: "r1 = Inr ts"
    by (cases r1) auto
  from Cons.prems f r1 obtain ps where ps: "fetch_all e ss w1 = Inr ps" and pairs: "pairs = (s, ts) # ps"
    by (cases "fetch_all e ss w1") auto
  obtain tools1 reg1 where reg: "register_tools s ts (tools, reg) = (tools1, reg1)"
    by (cases "register_tools s ts (tools, reg)")
  have reg1: "reg1 n = (if exposes ts n then Some s else reg n)"
    using register_tools_routes [of s ts tools reg n] reg by simp
  have step: "discover e (s # ss) (tools, reg) tr w = discover e ss (tools1, reg1) (tr @ [FetchTools s]) w1"
    using f r1 reg by simp
  from Cons.IH [OF ps, of tools1 reg1 "tr @ [FetchTools s]"] reg1 pairs
  show ?case
    unfolding step by (auto simp: find_append split: option.splits)
qed

text \<open>
  Claim C4, as the code has it. The routing table is a dictionary that is assigned, for
  every tool with a name, the server that is being read (line 30). When every server
  answers, the construction of the table does not fail, whatever names the servers
  share, and a name is routed to the last server of \<open>server_streams\<close> that exposes
  it: a later server silently overrides an earlier one. A name that no server exposes
  is not a key of the table.
\<close>

theorem duplicate_names_route_to_last_server:
  assumes "fetch_all e server_streams w = Inr pairs"
  shows "\<not> isl (fst (discover e server_streams ([], Map.empty) [] w))
         \<and> routed (discover e server_streams ([], Map.empty) [] w) n =
             map_option fst (find (\<lambda>p. exposes (snd p) n) (rev pairs))"
  using discover_routes [OF assms, of "[]" Map.empty "[]" n]
  by (auto split: option.splits)

theorem duplicate_names_route_to_last_server_witness:
  "\<not> isl (fst (discover demo_env [0, 1] ([], Map.empty) []
                 \<lparr>pending_input = [], pending_completions = [], env_vars = []\<rparr>))
   \<and> routed (discover demo_env [0, 1] ([], Map.empty) []
               \<lparr>pending_input = [], pending_completions = [], env_vars = []\<rparr>) ''add''
     = map_option fst
         (find (\<lambda>p. exposes (snd p) ''add'')
            (rev [(0, [\<lparr>tool_name = Some ''add'', input_schema = JObj []\<rparr>]),
                  (1, [\<lparr>tool_name = Some ''add'', input_schema = JObj []\<rparr>,
                       \<lparr>tool_name = Some ''fail'', input_schema = JObj []\<rparr>,
                       \<lparr>tool_name = None, input_schema = JNull\<rparr>])]))"
proof -
  have a: "fetch_all demo_env [0, 1] \<lparr>pending_input = [], pending_completions = [], env_vars = []\<rparr>
             = Inr [(0, [\<lparr>tool_name = Some ''add'', input_schema = JObj []\<rparr>]),
                    (1, [\<lparr>tool_name = Some ''add'', input_schema = JObj []\<rparr>,
                         \<lparr>tool_name = Some ''fail'', input_schema = JObj []\<rparr>,
                         \<lparr>tool_name = None, input_schema = JNull\<rparr>])]"
    by (simp add: demo_env_def)
  show ?thesis
    by (rule duplicate_names_route_to_last_server [OF a])
qed

theorem duplicate_names_counterexample:
  "exposes (case fst (fetch_tools demo_env 0
                        \<lparr>pending_input = [], pending_completions = [], env_vars = []\<rparr>) of
              Inr ts \<Rightarrow> ts | Inl x \<Rightarrow> []) ''add''
   \<and> exposes (case fst (fetch_tools demo_env 1
                        \<lparr>pending_input = [], pending_completions = [], env_vars = []\<rparr>) of
              Inr ts \<Rightarrow> ts | Inl x \<Rightarrow> []) ''add''
   \<and> \<not> isl (fst (discover demo_env [0, 1] ([], Map.empty) []
                   \<lparr>pending_input = [], pending_completions = [], env_vars = []\<rparr>))
   \<and> routed (discover demo_env [0, 1] ([], Map.empty) []
               \<lparr>pending_input = [], pending_completions = [], env_vars = []\<rparr>) ''add''
     = Some 1"
  by (simp add: demo_env_def exposes_def)


end
